theory Spec2Isabelle
  imports Main "HOL-Library.Word"
begin

section \<open>Data model\<close>

text \<open>
  The transaction constructors of package \<open>transaction\<close> work on the structs of package
  \<open>types\<close> and call into packages \<open>types\<close>, \<open>crypto\<close> and \<open>encoding/base64\<close>. A Go
  struct is a record, an embedded struct is a record-valued field of the same name, a
  promoted field such as \<open>tx.Fee\<close> is read through the embedded struct
  (\<open>Fee (Header tx)\<close>). A fixed array \<open>[N]byte\<close> and a slice \<open>[]byte\<close> are both byte
  lists; the zero value of the array is \<open>N\<close> zero bytes, a nil slice is the empty list.
  \<open>uint64\<close> is \<open>64 word\<close>, so multiplication wraps and \<open><\<close> compares unsigned.
\<close>

type_synonym byte = "8 word"
type_synonym uint64 = "64 word"
type_synonym Address = "byte list"
type_synonym Digest = "byte list"

text \<open>
  Go's \<open>error\<close> values. \<open>ExternalError\<close> is an error produced by a collaborator
  (address decoding, base64 decoding, signing, group hashing); the others are the
  \<open>fmt.Errorf\<close> values of this package, with their arguments. \<open>NilPointerDereference\<close>
  is the run-time panic of a write through a nil pointer.
\<close>

datatype error =
    ExternalError string
  | MissingGenesisHash
  | UnitNameTooLong string nat
  | AssetNameTooLong string nat
  | InputNot32Bytes
  | NilPointerDereference

text \<open>
  Modelled from the spec: the declarations of package \<open>types\<close> are not among the
  sources. The transaction kinds are the spec's tagged union; \<open>NoType\<close> is the zero
  value of \<open>TxType\<close>. The records below have the fields the constructors assign. The
  field groups of which the sources touch no field are kept as an uninterpreted value.
\<close>

datatype TxType =
    NoType
  | PaymentTx
  | KeyRegistrationTx
  | AssetConfigTx
  | AssetTransferTx
  | AssetFreezeTx
  | ApplicationCallTx

record Header =
  Sender :: Address
  Fee :: uint64
  FirstValid :: uint64
  LastValid :: uint64
  Note :: "byte list"
  GenesisID :: string
  GenesisHash :: Digest
  Group :: Digest

record KeyregTxnFields =
  VotePK :: "byte list"
  SelectionPK :: "byte list"
  VoteFirst :: uint64
  VoteLast :: uint64
  VoteKeyDilution :: uint64

record PaymentTxnFields =
  Receiver :: Address
  Amount :: uint64
  CloseRemainderTo :: Address

record AssetParams =
  Total :: uint64
  DefaultFrozen :: bool
  UnitName :: "byte list"
  AssetName :: "byte list"
  Manager :: Address
  Reserve :: Address
  Freeze :: Address
  Clawback :: Address

record AssetConfigTxnFields =
  AssetParams :: AssetParams

datatype opaque_fields = Opaque "byte list"

type_synonym AssetTransferTxnFields = opaque_fields
type_synonym AssetFreezeTxnFields = opaque_fields
type_synonym ApplicationCallTxnFields = opaque_fields

record Transaction =
  Type :: TxType
  Header :: Header
  KeyregTxnFields :: KeyregTxnFields
  PaymentTxnFields :: PaymentTxnFields
  AssetConfigTxnFields :: AssetConfigTxnFields
  AssetTransferTxnFields :: AssetTransferTxnFields
  AssetFreezeTxnFields :: AssetFreezeTxnFields
  ApplicationCallTxnFields :: ApplicationCallTxnFields

record Account =
  PrivateKey :: "byte list"
  PublicKey :: "byte list"

text \<open>
  The collaborators, taken as parameters. Every Go function with results
  \<open>(v, error)\<close> is a function to a pair whose second component is \<open>None\<close> for a nil
  error. \<open>GenerateAccount\<close> is the key pair that \<open>crypto.GenerateAccount()\<close> draws in
  the call under consideration. \<open>UnitName_len\<close> and \<open>AssetName_len\<close> are the lengths of
  the arrays \<open>AssetParams.UnitName\<close> and \<open>AssetParams.AssetName\<close>, which the missing
  type declaration fixes.
\<close>

record env =
  DecodeAddress :: "string \<Rightarrow> Address \<times> error option"
  DecodeString :: "string \<Rightarrow> byte list \<times> error option"
  GenerateAccount :: Account
  SignTransaction :: "byte list \<Rightarrow> Transaction \<Rightarrow> string \<times> byte list \<times> error option"
  ComputeGroupID :: "Transaction list \<Rightarrow> Digest \<times> error option"
  UnitName_len :: nat
  AssetName_len :: nat

subsection \<open>Zero values\<close>

definition zero_bytes :: "nat \<Rightarrow> byte list" where
  "zero_bytes n = replicate n 0"

definition Address_zero :: Address where
  "Address_zero = zero_bytes 32"

definition Digest_zero :: Digest where
  "Digest_zero = zero_bytes 32"

definition Header_zero :: Header where
  "Header_zero = \<lparr>Sender = Address_zero, Fee = 0, FirstValid = 0, LastValid = 0,
     Note = [], GenesisID = [], GenesisHash = Digest_zero, Group = Digest_zero\<rparr>"

definition KeyregTxnFields_zero :: KeyregTxnFields where
  "KeyregTxnFields_zero = \<lparr>VotePK = zero_bytes 32, SelectionPK = zero_bytes 32,
     VoteFirst = 0, VoteLast = 0, VoteKeyDilution = 0\<rparr>"

definition PaymentTxnFields_zero :: PaymentTxnFields where
  "PaymentTxnFields_zero =
     \<lparr>Receiver = Address_zero, Amount = 0, CloseRemainderTo = Address_zero\<rparr>"

definition AssetParams_zero :: "env \<Rightarrow> AssetParams" where
  "AssetParams_zero e = \<lparr>Total = 0, DefaultFrozen = False,
     UnitName = zero_bytes (UnitName_len e), AssetName = zero_bytes (AssetName_len e),
     Manager = Address_zero, Reserve = Address_zero, Freeze = Address_zero,
     Clawback = Address_zero\<rparr>"

definition Transaction_zero :: "env \<Rightarrow> Transaction" where
  "Transaction_zero e = \<lparr>Type = NoType, Header = Header_zero,
     KeyregTxnFields = KeyregTxnFields_zero, PaymentTxnFields = PaymentTxnFields_zero,
     AssetConfigTxnFields = \<lparr>AssetParams = AssetParams_zero e\<rparr>,
     AssetTransferTxnFields = Opaque [], AssetFreezeTxnFields = Opaque [],
     ApplicationCallTxnFields = Opaque []\<rparr>"

subsection \<open>Go built-ins\<close>

text \<open>
  \<open>copy(dst, src)\<close> overwrites the first \<open>min (len dst) (len src)\<close> elements of \<open>dst\<close>
  and leaves the rest of \<open>dst\<close> as it was.
\<close>

definition copy :: "'a list \<Rightarrow> 'a list \<Rightarrow> 'a list" where
  "copy dst src = take (length dst) src @ drop (length src) dst"

text \<open>\<open>[]byte(s)\<close>: a Go string is its bytes.\<close>

definition bytes_of_string :: "string \<Rightarrow> byte list" where
  "bytes_of_string s = map (\<lambda>c. of_nat (of_char c)) s"

text \<open>Assignments to promoted fields.\<close>

definition set_Fee :: "Transaction \<Rightarrow> uint64 \<Rightarrow> Transaction" where
  "set_Fee tx f = tx\<lparr>Header := (Header tx)\<lparr>Fee := f\<rparr>\<rparr>"

definition set_Group :: "Transaction \<Rightarrow> Digest \<Rightarrow> Transaction" where
  "set_Group tx g = tx\<lparr>Header := (Header tx)\<lparr>Group := g\<rparr>\<rparr>"

definition set_AssetParams :: "Transaction \<Rightarrow> AssetParams \<Rightarrow> Transaction" where
  "set_AssetParams tx p = tx\<lparr>AssetConfigTxnFields := (AssetConfigTxnFields tx)\<lparr>AssetParams := p\<rparr>\<rparr>"

definition get_AssetParams :: "Transaction \<Rightarrow> AssetParams" where
  "get_AssetParams tx = AssetParams (AssetConfigTxnFields tx)"

section \<open>The constructors\<close>

definition MinTxnFee :: uint64 where
  "MinTxnFee = 1000"

text \<open>\<open>byte32FromBase64\<close>: the named results \<open>out\<close> (zero array) and \<open>err\<close>.\<close>

definition byte32FromBase64 :: "env \<Rightarrow> string \<Rightarrow> byte list \<times> error option" where
  "byte32FromBase64 e inp =
     (let out = zero_bytes 32 in
      case DecodeString e inp of
        (slice', Some err) \<Rightarrow> (out, Some err)
      | (slice', None) \<Rightarrow>
          if length slice' \<noteq> 32 then (out, Some InputNot32Bytes)
          else (copy out slice', None))"

text \<open>\<open>estimateSize\<close>: sign with a fresh key, return the length of the signed bytes.\<close>

definition estimateSize :: "env \<Rightarrow> Transaction \<Rightarrow> uint64 \<times> error option" where
  "estimateSize e txn =
     (let key = GenerateAccount e in
      case SignTransaction e (PrivateKey key) txn of
        (txid, stx, Some err) \<Rightarrow> (0, Some err)
      | (txid, stx, None) \<Rightarrow> (of_nat (length stx), None))"

definition MakePaymentTxn ::
  "env \<Rightarrow> string \<Rightarrow> string \<Rightarrow> uint64 \<Rightarrow> uint64 \<Rightarrow> uint64 \<Rightarrow> uint64 \<Rightarrow> byte list \<Rightarrow> string
     \<Rightarrow> string \<Rightarrow> byte list \<Rightarrow> Transaction \<times> error option" where
  "MakePaymentTxn e from to fee amount firstRound lastRound note closeRemainderTo genesisID
       genesisHash =
     (case DecodeAddress e from of
        (fromAddr, Some err) \<Rightarrow> (Transaction_zero e, Some err)
      | (fromAddr, None) \<Rightarrow>
     (case DecodeAddress e to of
        (toAddr, Some err) \<Rightarrow> (Transaction_zero e, Some err)
      | (toAddr, None) \<Rightarrow>
     (case (if closeRemainderTo \<noteq> [] then DecodeAddress e closeRemainderTo
            else (Address_zero, None)) of
        (closeRemainderToAddr, Some err) \<Rightarrow> (Transaction_zero e, Some err)
      | (closeRemainderToAddr, None) \<Rightarrow>
     if length genesisHash = 0 then (Transaction_zero e, Some MissingGenesisHash)
     else
       let gh = copy Digest_zero genesisHash;
           tx = (Transaction_zero e)\<lparr>
                  Type := PaymentTx,
                  Header := (Header_zero\<lparr>
                    Sender := fromAddr,
                    Fee := fee,
                    FirstValid := firstRound,
                    LastValid := lastRound,
                    Note := note,
                    GenesisID := genesisID,
                    GenesisHash := gh\<rparr>),
                  PaymentTxnFields := \<lparr>
                    Receiver = toAddr,
                    Amount = amount,
                    CloseRemainderTo = closeRemainderToAddr\<rparr>\<rparr>
       in (case estimateSize e tx of
            (eSize, Some err) \<Rightarrow> (Transaction_zero e, Some err)
          | (eSize, None) \<Rightarrow>
              let tx1 = set_Fee tx (eSize * fee);
                  tx2 = (if Fee (Header tx1) < MinTxnFee then set_Fee tx1 MinTxnFee else tx1)
              in (tx2, None)))))"

definition MakePaymentTxnWithFlatFee ::
  "env \<Rightarrow> string \<Rightarrow> string \<Rightarrow> uint64 \<Rightarrow> uint64 \<Rightarrow> uint64 \<Rightarrow> uint64 \<Rightarrow> byte list \<Rightarrow> string
     \<Rightarrow> string \<Rightarrow> byte list \<Rightarrow> Transaction \<times> error option" where
  "MakePaymentTxnWithFlatFee e from to fee amount firstRound lastRound note closeRemainderTo
       genesisID genesisHash =
     (case MakePaymentTxn e from to fee amount firstRound lastRound note closeRemainderTo
             genesisID genesisHash of
        (tx, Some err) \<Rightarrow> (Transaction_zero e, Some err)
      | (tx, None) \<Rightarrow>
          let tx1 = set_Fee tx fee;
              tx2 = (if Fee (Header tx1) < MinTxnFee then set_Fee tx1 MinTxnFee else tx1)
          in (tx2, None))"

definition MakeKeyRegTxn ::
  "env \<Rightarrow> string \<Rightarrow> uint64 \<Rightarrow> uint64 \<Rightarrow> uint64 \<Rightarrow> byte list \<Rightarrow> string \<Rightarrow> string
     \<Rightarrow> string \<Rightarrow> string \<Rightarrow> uint64 \<Rightarrow> uint64 \<Rightarrow> uint64 \<Rightarrow> Transaction \<times> error option" where
  "MakeKeyRegTxn e account feePerByte firstRound lastRound note genesisID genesisHash
       voteKey selectionKey voteFirst voteLast voteKeyDilution =
     (case DecodeAddress e account of
        (accountAddr, Some err) \<Rightarrow> (Transaction_zero e, Some err)
      | (accountAddr, None) \<Rightarrow>
     (case byte32FromBase64 e genesisHash of
        (ghBytes, Some err) \<Rightarrow> (Transaction_zero e, Some err)
      | (ghBytes, None) \<Rightarrow>
     (case byte32FromBase64 e voteKey of
        (votePKBytes, Some err) \<Rightarrow> (Transaction_zero e, Some err)
      | (votePKBytes, None) \<Rightarrow>
     (case byte32FromBase64 e selectionKey of
        (selectionPKBytes, Some err) \<Rightarrow> (Transaction_zero e, Some err)
      | (selectionPKBytes, None) \<Rightarrow>
       let tx = (Transaction_zero e)\<lparr>
                  Type := KeyRegistrationTx,
                  Header := (Header_zero\<lparr>
                    Sender := accountAddr,
                    Fee := feePerByte,
                    FirstValid := firstRound,
                    LastValid := lastRound,
                    Note := note,
                    GenesisHash := ghBytes,
                    GenesisID := genesisID\<rparr>),
                  KeyregTxnFields := \<lparr>
                    VotePK = votePKBytes,
                    SelectionPK = selectionPKBytes,
                    VoteFirst = voteFirst,
                    VoteLast = voteLast,
                    VoteKeyDilution = voteKeyDilution\<rparr>\<rparr>
       in (case estimateSize e tx of
            (eSize, Some err) \<Rightarrow> (Transaction_zero e, Some err)
          | (eSize, None) \<Rightarrow>
              let tx1 = set_Fee tx (eSize * feePerByte);
                  tx2 = (if Fee (Header tx1) < MinTxnFee then set_Fee tx1 MinTxnFee else tx1)
              in (tx2, None))))))"

definition MakeKeyRegTxnWithFlatFee ::
  "env \<Rightarrow> string \<Rightarrow> uint64 \<Rightarrow> uint64 \<Rightarrow> uint64 \<Rightarrow> byte list \<Rightarrow> string \<Rightarrow> string
     \<Rightarrow> string \<Rightarrow> string \<Rightarrow> uint64 \<Rightarrow> uint64 \<Rightarrow> uint64 \<Rightarrow> Transaction \<times> error option" where
  "MakeKeyRegTxnWithFlatFee e account fee firstRound lastRound note genesisID genesisHash
       voteKey selectionKey voteFirst voteLast voteKeyDilution =
     (case MakeKeyRegTxn e account fee firstRound lastRound note genesisID genesisHash
             voteKey selectionKey voteFirst voteLast voteKeyDilution of
        (tx, Some err) \<Rightarrow> (Transaction_zero e, Some err)
      | (tx, None) \<Rightarrow>
          let tx1 = set_Fee tx fee;
              tx2 = (if Fee (Header tx1) < MinTxnFee then set_Fee tx1 MinTxnFee else tx1)
          in (tx2, None))"

text \<open>
  \<open>MakeAssetCreateTxn\<close> fills \<open>tx\<close> step by step. An assignment
  \<open>tx.AssetParams.Manager, err = types.DecodeAddress(manager)\<close> stores both results, also
  when \<open>err\<close> is not nil; the first six error returns hand back \<open>tx\<close> as built so far,
  the last three the zero value. There is no comparison with \<open>MinTxnFee\<close> after the
  multiplication.
\<close>

definition MakeAssetCreateTxn ::
  "env \<Rightarrow> string \<Rightarrow> uint64 \<Rightarrow> uint64 \<Rightarrow> uint64 \<Rightarrow> byte list \<Rightarrow> string \<Rightarrow> string
     \<Rightarrow> uint64 \<Rightarrow> bool \<Rightarrow> string \<Rightarrow> string \<Rightarrow> string \<Rightarrow> string \<Rightarrow> string \<Rightarrow> string
     \<Rightarrow> Transaction \<times> error option" where
  "MakeAssetCreateTxn e account feePerByte firstRound lastRound note genesisID genesisHash
       total' defaultFrozen manager reserve freeze clawback unitName assetName =
     (let tx0 = (Transaction_zero e)\<lparr>Type := AssetConfigTx\<rparr>;
          tx1 = set_AssetParams tx0
                  ((AssetParams_zero e)\<lparr>Total := total', DefaultFrozen := defaultFrozen\<rparr>)
      in
      case (if manager \<noteq> [] then DecodeAddress e manager
            else (Manager (get_AssetParams tx1), None)) of (m, err) \<Rightarrow>
      let tx2 = set_AssetParams tx1 ((get_AssetParams tx1)\<lparr>Manager := m\<rparr>) in
      if err \<noteq> None then (tx2, err) else
      case (if reserve \<noteq> [] then DecodeAddress e reserve
            else (Reserve (get_AssetParams tx2), None)) of (r, err) \<Rightarrow>
      let tx3 = set_AssetParams tx2 ((get_AssetParams tx2)\<lparr>Reserve := r\<rparr>) in
      if err \<noteq> None then (tx3, err) else
      case (if freeze \<noteq> [] then DecodeAddress e freeze
            else (Freeze (get_AssetParams tx3), None)) of (f, err) \<Rightarrow>
      let tx4 = set_AssetParams tx3 ((get_AssetParams tx3)\<lparr>Freeze := f\<rparr>) in
      if err \<noteq> None then (tx4, err) else
      case (if clawback \<noteq> [] then DecodeAddress e clawback
            else (Clawback (get_AssetParams tx4), None)) of (c, err) \<Rightarrow>
      let tx5 = set_AssetParams tx4 ((get_AssetParams tx4)\<lparr>Clawback := c\<rparr>) in
      if err \<noteq> None then (tx5, err) else
      if length unitName > length (UnitName (get_AssetParams tx5))
      then (tx5, Some (UnitNameTooLong unitName (length (UnitName (get_AssetParams tx5)))))
      else
      let tx6 = set_AssetParams tx5 ((get_AssetParams tx5)\<lparr>UnitName :=
                  copy (UnitName (get_AssetParams tx5)) (bytes_of_string unitName)\<rparr>) in
      if length assetName > length (AssetName (get_AssetParams tx6))
      then (tx6, Some (AssetNameTooLong assetName (length (AssetName (get_AssetParams tx6)))))
      else
      let tx7 = set_AssetParams tx6 ((get_AssetParams tx6)\<lparr>AssetName :=
                  copy (AssetName (get_AssetParams tx6)) (bytes_of_string assetName)\<rparr>) in
      (case DecodeAddress e account of
        (accountAddr, Some err) \<Rightarrow> (Transaction_zero e, Some err)
      | (accountAddr, None) \<Rightarrow>
      (case byte32FromBase64 e genesisHash of
        (ghBytes, Some err) \<Rightarrow> (Transaction_zero e, Some err)
      | (ghBytes, None) \<Rightarrow>
       let tx8 = tx7\<lparr>Header := (Header_zero\<lparr>
                    Sender := accountAddr,
                    Fee := feePerByte,
                    FirstValid := firstRound,
                    LastValid := lastRound,
                    GenesisHash := ghBytes,
                    GenesisID := genesisID,
                    Note := note\<rparr>)\<rparr>
       in (case estimateSize e tx8 of
            (eSize, Some err) \<Rightarrow> (Transaction_zero e, Some err)
          | (eSize, None) \<Rightarrow> (set_Fee tx8 (eSize * feePerByte), None)))))"

definition MakeAssetCreateTxnWithFlatFee ::
  "env \<Rightarrow> string \<Rightarrow> uint64 \<Rightarrow> uint64 \<Rightarrow> uint64 \<Rightarrow> byte list \<Rightarrow> string \<Rightarrow> string
     \<Rightarrow> uint64 \<Rightarrow> bool \<Rightarrow> string \<Rightarrow> string \<Rightarrow> string \<Rightarrow> string \<Rightarrow> string \<Rightarrow> string
     \<Rightarrow> Transaction \<times> error option" where
  "MakeAssetCreateTxnWithFlatFee e account fee firstRound lastRound note genesisID genesisHash
       total' defaultFrozen manager reserve freeze clawback unitName assetName =
     (case MakeAssetCreateTxn e account fee firstRound lastRound note genesisID genesisHash
             total' defaultFrozen manager reserve freeze clawback unitName assetName of
        (tx, Some err) \<Rightarrow> (Transaction_zero e, Some err)
      | (tx, None) \<Rightarrow>
          let tx1 = set_Fee tx fee;
              tx2 = (if Fee (Header tx1) < MinTxnFee then set_Fee tx1 MinTxnFee else tx1)
          in (tx2, None))"

section \<open>The transactions handed to the size estimator\<close>

text \<open>
  The transaction each per-byte constructor has assembled when it calls \<open>estimateSize\<close>
  (lines 48 to 64, 135 to 153 and 211 to 275), written with the results of the decoders.
  Its \<open>Fee\<close> holds the rate at that point.
\<close>

definition MakePaymentTxn_candidate ::
  "env \<Rightarrow> string \<Rightarrow> string \<Rightarrow> uint64 \<Rightarrow> uint64 \<Rightarrow> uint64 \<Rightarrow> uint64 \<Rightarrow> byte list \<Rightarrow> string
     \<Rightarrow> string \<Rightarrow> byte list \<Rightarrow> Transaction" where
  "MakePaymentTxn_candidate e from to fee amount firstRound lastRound note closeRemainderTo
       genesisID genesisHash =
     (Transaction_zero e)\<lparr>
        Type := PaymentTx,
        Header := (Header_zero\<lparr>
          Sender := fst (DecodeAddress e from),
          Fee := fee,
          FirstValid := firstRound,
          LastValid := lastRound,
          Note := note,
          GenesisID := genesisID,
          GenesisHash := copy Digest_zero genesisHash\<rparr>),
        PaymentTxnFields := \<lparr>
          Receiver = fst (DecodeAddress e to),
          Amount = amount,
          CloseRemainderTo = (if closeRemainderTo \<noteq> []
                              then fst (DecodeAddress e closeRemainderTo)
                              else Address_zero)\<rparr>\<rparr>"

definition MakeKeyRegTxn_candidate ::
  "env \<Rightarrow> string \<Rightarrow> uint64 \<Rightarrow> uint64 \<Rightarrow> uint64 \<Rightarrow> byte list \<Rightarrow> string \<Rightarrow> string
     \<Rightarrow> string \<Rightarrow> string \<Rightarrow> uint64 \<Rightarrow> uint64 \<Rightarrow> uint64 \<Rightarrow> Transaction" where
  "MakeKeyRegTxn_candidate e account feePerByte firstRound lastRound note genesisID genesisHash
       voteKey selectionKey voteFirst voteLast voteKeyDilution =
     (Transaction_zero e)\<lparr>
        Type := KeyRegistrationTx,
        Header := (Header_zero\<lparr>
          Sender := fst (DecodeAddress e account),
          Fee := feePerByte,
          FirstValid := firstRound,
          LastValid := lastRound,
          Note := note,
          GenesisHash := fst (byte32FromBase64 e genesisHash),
          GenesisID := genesisID\<rparr>),
        KeyregTxnFields := \<lparr>
          VotePK = fst (byte32FromBase64 e voteKey),
          SelectionPK = fst (byte32FromBase64 e selectionKey),
          VoteFirst = voteFirst,
          VoteLast = voteLast,
          VoteKeyDilution = voteKeyDilution\<rparr>\<rparr>"

definition MakeAssetCreateTxn_candidate ::
  "env \<Rightarrow> string \<Rightarrow> uint64 \<Rightarrow> uint64 \<Rightarrow> uint64 \<Rightarrow> byte list \<Rightarrow> string \<Rightarrow> string
     \<Rightarrow> uint64 \<Rightarrow> bool \<Rightarrow> string \<Rightarrow> string \<Rightarrow> string \<Rightarrow> string \<Rightarrow> string \<Rightarrow> string
     \<Rightarrow> Transaction" where
  "MakeAssetCreateTxn_candidate e account feePerByte firstRound lastRound note genesisID
       genesisHash total' defaultFrozen manager reserve freeze clawback unitName assetName =
     (Transaction_zero e)\<lparr>
        Type := AssetConfigTx,
        Header := (Header_zero\<lparr>
          Sender := fst (DecodeAddress e account),
          Fee := feePerByte,
          FirstValid := firstRound,
          LastValid := lastRound,
          GenesisHash := fst (byte32FromBase64 e genesisHash),
          GenesisID := genesisID,
          Note := note\<rparr>),
        AssetConfigTxnFields := \<lparr>AssetParams = \<lparr>
          Total = total',
          DefaultFrozen = defaultFrozen,
          UnitName = copy (zero_bytes (UnitName_len e)) (bytes_of_string unitName),
          AssetName = copy (zero_bytes (AssetName_len e)) (bytes_of_string assetName),
          Manager = (if manager \<noteq> [] then fst (DecodeAddress e manager) else Address_zero),
          Reserve = (if reserve \<noteq> [] then fst (DecodeAddress e reserve) else Address_zero),
          Freeze = (if freeze \<noteq> [] then fst (DecodeAddress e freeze) else Address_zero),
          Clawback = (if clawback \<noteq> [] then fst (DecodeAddress e clawback)
                      else Address_zero)\<rparr>\<rparr>\<rparr>"

section \<open>Group binding\<close>

text \<open>\<open>bytes.Compare\<close>: lexicographic comparison of two byte slices, as -1, 0 or 1.\<close>

fun bytes_Compare :: "byte list \<Rightarrow> byte list \<Rightarrow> int" where
  "bytes_Compare [] [] = 0"
| "bytes_Compare [] (y # ys) = - 1"
| "bytes_Compare (x # xs) [] = 1"
| "bytes_Compare (x # xs) (y # ys) =
     (if x < y then - 1 else if y < x then 1 else bytes_Compare xs ys)"

text \<open>
  The memory \<open>AssignGroupID\<close> works on: the backing array of the caller's slice \<open>txns\<close>
  and the named result \<open>result\<close>. \<open>for _, tx := range txns\<close> copies element \<open>i\<close> into
  the loop variable \<open>tx\<close>; the assignment \<open>tx.Group = gid\<close> changes that copy, and
  \<open>append\<close> stores the copy in \<open>result\<close>.
\<close>

record range_state =
  txns_arr :: "Transaction list"
  result_var :: "Transaction list"

definition AssignGroupID_iter ::
  "Digest \<Rightarrow> string \<Rightarrow> Address \<Rightarrow> range_state \<Rightarrow> nat \<Rightarrow> range_state" where
  "AssignGroupID_iter gid account decoded st i =
     (let tx = txns_arr st ! i in
      if account = [] \<or> bytes_Compare (Sender (Header tx)) decoded = 0
      then (let tx1 = set_Group tx gid
            in st\<lparr>result_var := result_var st @ [tx1]\<rparr>)
      else st)"

text \<open>
  The results \<open>(result, err)\<close> of \<open>AssignGroupID\<close>, paired with the content of the
  caller's backing array when the call returns. The collaborators are functions of their
  arguments: \<open>crypto.ComputeGroupID\<close> reads the slice and writes nothing to it.
\<close>

definition AssignGroupID_exec ::
  "env \<Rightarrow> Transaction list \<Rightarrow> string
     \<Rightarrow> (Transaction list \<times> error option) \<times> Transaction list" where
  "AssignGroupID_exec e txns account =
     (case ComputeGroupID e txns of
        (gid, Some err) \<Rightarrow> (([], Some err), txns)
      | (gid, None) \<Rightarrow>
     (case (if account \<noteq> [] then DecodeAddress e account else (Address_zero, None)) of
        (decoded, Some err) \<Rightarrow> (([], Some err), txns)
      | (decoded, None) \<Rightarrow>
          let st = foldl (AssignGroupID_iter gid account decoded)
                     \<lparr>txns_arr = txns, result_var = []\<rparr> [0..<length txns]
          in ((result_var st, None), txns_arr st)))"

definition AssignGroupID ::
  "env \<Rightarrow> Transaction list \<Rightarrow> string \<Rightarrow> Transaction list \<times> error option" where
  "AssignGroupID e txns account = fst (AssignGroupID_exec e txns account)"

section \<open>The transaction builder\<close>

text \<open>
  \<open>TransactionBuilder\<close> embeds the same field groups as \<open>types.Transaction\<close>; its
  fields carry the prefix \<open>tb_\<close> here, since two records cannot share field names.
\<close>

record TransactionBuilder =
  tb_Type :: TxType
  tb_Header :: Header
  tb_KeyregTxnFields :: KeyregTxnFields
  tb_PaymentTxnFields :: PaymentTxnFields
  tb_AssetConfigTxnFields :: AssetConfigTxnFields
  tb_AssetTransferTxnFields :: AssetTransferTxnFields
  tb_AssetFreezeTxnFields :: AssetFreezeTxnFields
  tb_ApplicationCallTxnFields :: ApplicationCallTxnFields

text \<open>
  A \<open>*types.Transaction\<close> is \<open>None\<close> (nil) or the address of a transaction in the heap.
  A write through nil panics; the panic is the \<open>Inl\<close> result.
\<close>

type_synonym heap = "nat \<Rightarrow> Transaction"

definition assign :: "nat option \<Rightarrow> (Transaction \<Rightarrow> Transaction) \<Rightarrow> heap \<Rightarrow> error + heap" where
  "assign p f h =
     (case p of None \<Rightarrow> Inl NilPointerDereference | Some a \<Rightarrow> Inr (h(a := f (h a))))"

definition then_do :: "error + heap \<Rightarrow> (heap \<Rightarrow> error + 'a) \<Rightarrow> error + 'a" where
  "then_do r k = (case r of Inl err \<Rightarrow> Inl err | Inr h \<Rightarrow> k h)"

text \<open>
  The statements of \<open>buildT\<close>, run with the named result \<open>tx\<close> holding the given
  pointer. The receiver \<open>tb\<close> is taken as the builder it points to.
\<close>

definition buildT_body ::
  "nat option \<Rightarrow> TransactionBuilder \<Rightarrow> heap \<Rightarrow> error + (nat option \<times> heap)" where
  "buildT_body tx tb h =
     then_do (assign tx (\<lambda>t. t\<lparr>Type := tb_Type tb\<rparr>) h) (\<lambda>h.
     then_do (assign tx (\<lambda>t. t\<lparr>KeyregTxnFields := tb_KeyregTxnFields tb\<rparr>) h) (\<lambda>h.
     then_do (assign tx (\<lambda>t. t\<lparr>PaymentTxnFields := tb_PaymentTxnFields tb\<rparr>) h) (\<lambda>h.
     then_do (assign tx (\<lambda>t. t\<lparr>AssetConfigTxnFields := tb_AssetConfigTxnFields tb\<rparr>) h) (\<lambda>h.
     then_do (assign tx (\<lambda>t. t\<lparr>AssetTransferTxnFields := tb_AssetTransferTxnFields tb\<rparr>) h) (\<lambda>h.
     then_do (assign tx (\<lambda>t. t\<lparr>AssetFreezeTxnFields := tb_AssetFreezeTxnFields tb\<rparr>) h) (\<lambda>h.
     then_do (assign tx (\<lambda>t. t\<lparr>ApplicationCallTxnFields := tb_ApplicationCallTxnFields tb\<rparr>) h) (\<lambda>h.
     Inr (tx, h))))))))"

text \<open>\<open>buildT\<close>: the named result \<open>tx\<close> starts as nil and nothing is allocated for it.\<close>

definition buildT :: "TransactionBuilder \<Rightarrow> heap \<Rightarrow> error + (nat option \<times> heap)" where
  "buildT tb h = buildT_body None tb h"

section \<open>A concrete instance of the collaborators\<close>

text \<open>
  An instance to evaluate the constructors on: two addresses decode, two base64 strings
  decode (one to 32 bytes, one to 5), every signed transaction has 200 bytes, and the
  group identifier is made of the number of transactions.
\<close>

definition demo_env :: env where
  "demo_env = \<lparr>
     DecodeAddress = (\<lambda>s. if s = ''ALICE'' then (replicate 32 1, None)
                          else if s = ''BOB'' then (replicate 32 2, None)
                          else (replicate 32 0, Some (ExternalError ''bad address''))),
     DecodeString = (\<lambda>s. if s = ''GH'' then (replicate 32 7, None)
                         else if s = ''SHORT'' then (replicate 5 7, None)
                         else ([], Some (ExternalError ''illegal base64 data''))),
     GenerateAccount = \<lparr>PrivateKey = replicate 64 9, PublicKey = replicate 32 9\<rparr>,
     SignTransaction = (\<lambda>k tx. (''TXID'', replicate 200 0, None)),
     ComputeGroupID = (\<lambda>txns. (replicate 32 (of_nat (length txns)), None)),
     UnitName_len = 8,
     AssetName_len = 32\<rparr>"

text \<open>
  An instance whose signed size grows with the fee the transaction carries, as an
  encoding of integers in as few bytes as they need makes it.
\<close>

definition sized_env :: env where
  "sized_env = demo_env\<lparr>SignTransaction :=
     (\<lambda>k tx. (''TXID'',
        replicate (if Fee (Header tx) < 128 then 222
                   else if Fee (Header tx) < 65536 then 224 else 230) 0,
        None))\<rparr>"

text \<open>Three transactions, two sent by the first address and one by the second.\<close>

definition demo_txns :: "Transaction list" where
  "demo_txns =
     [(Transaction_zero demo_env)\<lparr>Type := PaymentTx,
        Header := (Header_zero\<lparr>Sender := replicate 32 1, Fee := 1000\<rparr>)\<rparr>,
      (Transaction_zero demo_env)\<lparr>Type := PaymentTx,
        Header := (Header_zero\<lparr>Sender := replicate 32 1, Fee := 2000\<rparr>)\<rparr>,
      (Transaction_zero demo_env)\<lparr>Type := PaymentTx,
        Header := (Header_zero\<lparr>Sender := replicate 32 2, Fee := 3000\<rparr>)\<rparr>]"

text \<open>A builder for a payment, with a fee in its header.\<close>

definition demo_tb :: TransactionBuilder where
  "demo_tb = \<lparr>tb_Type = PaymentTx,
     tb_Header = Header_zero\<lparr>Sender := replicate 32 1, Fee := 7\<rparr>,
     tb_KeyregTxnFields = KeyregTxnFields_zero,
     tb_PaymentTxnFields = \<lparr>Receiver = replicate 32 2, Amount = 5, CloseRemainderTo = Address_zero\<rparr>,
     tb_AssetConfigTxnFields = \<lparr>AssetParams = AssetParams_zero demo_env\<rparr>,
     tb_AssetTransferTxnFields = Opaque [],
     tb_AssetFreezeTxnFields = Opaque [],
     tb_ApplicationCallTxnFields = Opaque []\<rparr>"

section \<open>Auxiliary facts\<close>

lemma copy_same_length: "length src = length dst \<Longrightarrow> copy dst src = src"
  by (simp add: copy_def)

lemma length_copy: "length (copy dst src) = length dst"
  by (simp add: copy_def)

lemma bytes_Compare_eq_0: "bytes_Compare xs ys = 0 \<longleftrightarrow> xs = ys"
  by (induction xs ys rule: bytes_Compare.induct) auto

lemma byte32FromBase64_cases:
  "byte32FromBase64 e inp =
     (if snd (DecodeString e inp) \<noteq> None then (zero_bytes 32, snd (DecodeString e inp))
      else if length (fst (DecodeString e inp)) \<noteq> 32 then (zero_bytes 32, Some InputNot32Bytes)
      else (fst (DecodeString e inp), None))"
  by (cases "DecodeString e inp")
     (auto simp: byte32FromBase64_def Let_def copy_same_length zero_bytes_def split: option.splits)

section \<open>The fixed-width field codec\<close>

text \<open>
  C8. \<open>byte32FromBase64\<close> returns an error exactly when the base64 decoder reports one
  or the decoded bytes are not 32 long; without an error the result is the decoded
  bytes, 32 of them; with an error the result array is the zero array, so no partly
  filled array is returned in either case.
\<close>

theorem byte32FromBase64_spec:
  "(snd (byte32FromBase64 e inp) \<noteq> None) =
     (snd (DecodeString e inp) \<noteq> None \<or> length (fst (DecodeString e inp)) \<noteq> 32)
   \<and> (snd (byte32FromBase64 e inp) = None \<longrightarrow>
        fst (byte32FromBase64 e inp) = fst (DecodeString e inp))
   \<and> (snd (byte32FromBase64 e inp) \<noteq> None \<longrightarrow>
        fst (byte32FromBase64 e inp) = zero_bytes 32)
   \<and> length (fst (byte32FromBase64 e inp)) = 32"
  by (auto simp: byte32FromBase64_cases zero_bytes_def)

theorem byte32FromBase64_spec_witness:
  "snd (byte32FromBase64 demo_env ''GH'') = None
   \<and> fst (byte32FromBase64 demo_env ''GH'') = replicate 32 7
   \<and> snd (byte32FromBase64 demo_env ''SHORT'') \<noteq> None
   \<and> fst (byte32FromBase64 demo_env ''SHORT'') = zero_bytes 32"
  using byte32FromBase64_spec [of demo_env "''GH''"]
        byte32FromBase64_spec [of demo_env "''SHORT''"]
  by (simp add: demo_env_def)

section \<open>Properties of group binding\<close>

lemma AssignGroupID_loop:
  "n \<le> length txns \<Longrightarrow>
   foldl (AssignGroupID_iter gid account decoded) \<lparr>txns_arr = txns, result_var = []\<rparr> [0..<n] =
     \<lparr>txns_arr = txns,
      result_var = map (\<lambda>tx. set_Group tx gid)
        (filter (\<lambda>tx. account = [] \<or> Sender (Header tx) = decoded) (take n txns))\<rparr>"
proof (induction n)
  case 0
  then show ?case by simp
next
  case (Suc n)
  then have n: "n < length txns" by simp
  then show ?case
    using Suc.IH
    by (simp add: AssignGroupID_iter_def Let_def bytes_Compare_eq_0 take_Suc_conv_app_nth)
qed

lemma AssignGroupID_exec_success:
  assumes "ComputeGroupID e txns = (gid, None)"
    and "account = [] \<or> DecodeAddress e account = (decoded, None)"
  shows "AssignGroupID_exec e txns account =
     ((map (\<lambda>tx. set_Group tx gid)
        (filter (\<lambda>tx. account = [] \<or> Sender (Header tx) = decoded) txns), None), txns)"
proof (cases "account = []")
  case True
  then show ?thesis
    using assms(1) by (simp add: AssignGroupID_exec_def AssignGroupID_loop)
next
  case False
  then show ?thesis
    using assms by (simp add: AssignGroupID_exec_def AssignGroupID_loop)
qed

lemma AssignGroupID_exec_frame: "snd (AssignGroupID_exec e txns account) = txns"
  by (simp add: AssignGroupID_exec_def AssignGroupID_loop Let_def split: prod.splits option.splits)

text \<open>
  C2. When the group identifier \<open>gid\<close> is computed without error from the whole input
  list \<open>txns\<close>, and the filter is the empty string or decodes to \<open>decoded\<close>,
  \<open>AssignGroupID\<close> returns without error the transactions of \<open>txns\<close> whose \<open>Sender\<close> is
  \<open>decoded\<close> (all of them for the empty filter), in input order, each with \<open>Group\<close> set
  to \<open>gid\<close> and otherwise unchanged.
\<close>

theorem AssignGroupID_spec:
  assumes "ComputeGroupID e txns = (gid, None)"
    and "account = [] \<or> DecodeAddress e account = (decoded, None)"
  shows "AssignGroupID e txns account =
     (map (\<lambda>tx. tx\<lparr>Header := (Header tx)\<lparr>Group := gid\<rparr>\<rparr>)
        (filter (\<lambda>tx. account = [] \<or> Sender (Header tx) = decoded) txns), None)"
  using AssignGroupID_exec_success [OF assms]
  by (simp add: AssignGroupID_def set_Group_def)

theorem AssignGroupID_spec_witness:
  "AssignGroupID demo_env demo_txns ''ALICE'' =
     ([(demo_txns ! 0)\<lparr>Header := (Header (demo_txns ! 0))\<lparr>Group := replicate 32 3\<rparr>\<rparr>,
       (demo_txns ! 1)\<lparr>Header := (Header (demo_txns ! 1))\<lparr>Group := replicate 32 3\<rparr>\<rparr>], None)"
proof -
  have g: "ComputeGroupID demo_env demo_txns = (replicate 32 3, None)"
    by (simp add: demo_env_def demo_txns_def)
  have d: "''ALICE'' = [] \<or> DecodeAddress demo_env ''ALICE'' = (replicate 32 1, None)"
    by (simp add: demo_env_def)
  show ?thesis
    using AssignGroupID_spec [OF g d]
    by (simp add: demo_txns_def Header_zero_def)
qed

text \<open>
  C9. When \<open>AssignGroupID\<close> returns, the caller's backing array holds the transactions it
  held before the call, whatever the filter and whether or not an error is returned; the
  group identifier is carried by the transactions of the result, which are copies.
\<close>

theorem AssignGroupID_frame:
  "snd (AssignGroupID_exec e txns account) = txns
   \<and> fst (AssignGroupID_exec e txns account) = AssignGroupID e txns account
   \<and> (\<forall>tx \<in> set (fst (AssignGroupID e txns account)).
         Group (Header tx) = fst (ComputeGroupID e txns))"
proof -
  have "\<forall>tx \<in> set (fst (AssignGroupID e txns account)).
         Group (Header tx) = fst (ComputeGroupID e txns)"
    by (auto simp: AssignGroupID_def AssignGroupID_exec_def AssignGroupID_loop Let_def set_Group_def
        split: prod.splits option.splits if_splits)
  then show ?thesis
    by (simp add: AssignGroupID_exec_frame AssignGroupID_def)
qed

theorem AssignGroupID_frame_witness:
  "snd (AssignGroupID_exec demo_env demo_txns ''ALICE'') = demo_txns
   \<and> Group (Header (demo_txns ! 0)) = Digest_zero
   \<and> fst (AssignGroupID demo_env demo_txns ''ALICE'') \<noteq> []
   \<and> Group (Header (hd (fst (AssignGroupID demo_env demo_txns ''ALICE'')))) = replicate 32 3"
proof -
  have ne: "fst (AssignGroupID demo_env demo_txns ''ALICE'') \<noteq> []"
    by (simp add: AssignGroupID_def AssignGroupID_exec_def demo_env_def demo_txns_def
        AssignGroupID_iter_def Let_def Header_zero_def bytes_Compare_eq_0 upt_rec)
  then have "hd (fst (AssignGroupID demo_env demo_txns ''ALICE''))
      \<in> set (fst (AssignGroupID demo_env demo_txns ''ALICE''))"
    by simp
  then have "Group (Header (hd (fst (AssignGroupID demo_env demo_txns ''ALICE'')))) =
      fst (ComputeGroupID demo_env demo_txns)"
    using AssignGroupID_frame [of demo_env demo_txns "''ALICE''"] by blast
  moreover have "fst (ComputeGroupID demo_env demo_txns) = replicate 32 3"
    by (simp add: demo_env_def demo_txns_def)
  moreover have "Group (Header (demo_txns ! 0)) = Digest_zero"
    by (simp add: demo_txns_def Header_zero_def)
  ultimately show ?thesis
    using ne AssignGroupID_frame [of demo_env demo_txns "''ALICE''"] by simp
qed

section \<open>Facts about the constructors\<close>

lemma Fee_Transaction_zero [simp]: "Fee (Header (Transaction_zero e)) = 0"
  by (simp add: Transaction_zero_def Header_zero_def)

lemma get_AssetParams_simps [simp]:
  "get_AssetParams (set_AssetParams tx p) = p"
  "get_AssetParams (set_Fee tx f) = get_AssetParams tx"
  "get_AssetParams (tx\<lparr>Header := h\<rparr>) = get_AssetParams tx"
  "get_AssetParams (tx\<lparr>Type := t\<rparr>) = get_AssetParams tx"
  "get_AssetParams (Transaction_zero e) = AssetParams_zero e"
  by (simp_all add: get_AssetParams_def set_AssetParams_def set_Fee_def Transaction_zero_def)

lemma Header_set_AssetParams [simp]: "Header (set_AssetParams tx p) = Header tx"
  by (simp add: set_AssetParams_def)

lemma AssetParams_zero_simps [simp]:
  "Manager (AssetParams_zero e) = Address_zero"
  "Reserve (AssetParams_zero e) = Address_zero"
  "Freeze (AssetParams_zero e) = Address_zero"
  "Clawback (AssetParams_zero e) = Address_zero"
  "UnitName (AssetParams_zero e) = zero_bytes (UnitName_len e)"
  "AssetName (AssetParams_zero e) = zero_bytes (AssetName_len e)"
  by (simp_all add: AssetParams_zero_def)

lemma estimateSize_DecodeAddress_update [simp]:
  "estimateSize (e\<lparr>DecodeAddress := d\<rparr>) tx = estimateSize e tx"
  by (simp add: estimateSize_def)

lemma byte32FromBase64_DecodeAddress_update [simp]:
  "byte32FromBase64 (e\<lparr>DecodeAddress := d\<rparr>) s = byte32FromBase64 e s"
  by (simp add: byte32FromBase64_def)

lemma Transaction_zero_DecodeAddress_update [simp]:
  "Transaction_zero (e\<lparr>DecodeAddress := d\<rparr>) = Transaction_zero e"
  by (simp add: Transaction_zero_def AssetParams_zero_def)

lemma AssetParams_zero_DecodeAddress_update [simp]:
  "AssetParams_zero (e\<lparr>DecodeAddress := d\<rparr>) = AssetParams_zero e"
  by (simp add: AssetParams_zero_def)

lemmas demo_defs = demo_env_def estimateSize_def byte32FromBase64_def
  Transaction_zero_def Header_zero_def AssetParams_zero_def set_Fee_def set_AssetParams_def
  get_AssetParams_def MinTxnFee_def Let_def copy_def zero_bytes_def Digest_zero_def
  Address_zero_def

text \<open>
  The outcome of each per-byte constructor: when it succeeds, and the fee of the
  transaction it returns.
\<close>

lemma MakePaymentTxn_outcome:
  "(snd (MakePaymentTxn e from' to' fee amount firstRound lastRound note' closeRemainderTo
           genesisID genesisHash) = None)
     = (snd (DecodeAddress e from') = None \<and> snd (DecodeAddress e to') = None
        \<and> (closeRemainderTo = [] \<or> snd (DecodeAddress e closeRemainderTo) = None)
        \<and> genesisHash \<noteq> []
        \<and> snd (estimateSize e (MakePaymentTxn_candidate e from' to' fee amount firstRound
             lastRound note' closeRemainderTo genesisID genesisHash)) = None)
   \<and> Fee (Header (fst (MakePaymentTxn e from' to' fee amount firstRound lastRound note'
           closeRemainderTo genesisID genesisHash)))
     = (if snd (MakePaymentTxn e from' to' fee amount firstRound lastRound note'
           closeRemainderTo genesisID genesisHash) = None
        then (if fst (estimateSize e (MakePaymentTxn_candidate e from' to' fee amount firstRound
                 lastRound note' closeRemainderTo genesisID genesisHash)) * fee < MinTxnFee
              then MinTxnFee
              else fst (estimateSize e (MakePaymentTxn_candidate e from' to' fee amount
                 firstRound lastRound note' closeRemainderTo genesisID genesisHash)) * fee)
        else 0)"
proof -
  obtain a ea where a: "DecodeAddress e from' = (a, ea)"
    by (cases "DecodeAddress e from'")
  obtain b eb where b: "DecodeAddress e to' = (b, eb)"
    by (cases "DecodeAddress e to'")
  obtain c ec where c: "(if closeRemainderTo \<noteq> [] then DecodeAddress e closeRemainderTo
            else (Address_zero, None)) = (c, ec)"
    by (cases "(if closeRemainderTo \<noteq> [] then DecodeAddress e closeRemainderTo
            else (Address_zero, None))")
  have c1: "(if closeRemainderTo \<noteq> [] then fst (DecodeAddress e closeRemainderTo)
            else Address_zero) = c"
    and c2: "(closeRemainderTo = [] \<or> snd (DecodeAddress e closeRemainderTo) = None)
      = (ec = None)"
    using c by (auto split: if_splits)
  obtain s es where s: "estimateSize e (MakePaymentTxn_candidate e from' to' fee amount
      firstRound lastRound note' closeRemainderTo genesisID genesisHash) = (s, es)"
    by (cases "estimateSize e (MakePaymentTxn_candidate e from' to' fee amount
      firstRound lastRound note' closeRemainderTo genesisID genesisHash)")
  note s' = s [unfolded MakePaymentTxn_candidate_def a b c1 fst_conv]
  show ?thesis
    unfolding s c2 unfolding MakePaymentTxn_def a b c
    by (cases ea; cases eb; cases ec; cases es)
       (simp_all add: s' Let_def set_Fee_def)
qed

lemma MakeKeyRegTxn_outcome:
  "(snd (MakeKeyRegTxn e account fee firstRound lastRound note' genesisID genesisHash
           voteKey selectionKey voteFirst voteLast voteKeyDilution) = None)
     = (snd (DecodeAddress e account) = None \<and> snd (byte32FromBase64 e genesisHash) = None
        \<and> snd (byte32FromBase64 e voteKey) = None
        \<and> snd (byte32FromBase64 e selectionKey) = None
        \<and> snd (estimateSize e (MakeKeyRegTxn_candidate e account fee firstRound lastRound
             note' genesisID genesisHash voteKey selectionKey voteFirst voteLast
             voteKeyDilution)) = None)
   \<and> Fee (Header (fst (MakeKeyRegTxn e account fee firstRound lastRound note' genesisID
           genesisHash voteKey selectionKey voteFirst voteLast voteKeyDilution)))
     = (if snd (MakeKeyRegTxn e account fee firstRound lastRound note' genesisID
           genesisHash voteKey selectionKey voteFirst voteLast voteKeyDilution) = None
        then (if fst (estimateSize e (MakeKeyRegTxn_candidate e account fee firstRound
                 lastRound note' genesisID genesisHash voteKey selectionKey voteFirst voteLast
                 voteKeyDilution)) * fee < MinTxnFee
              then MinTxnFee
              else fst (estimateSize e (MakeKeyRegTxn_candidate e account fee firstRound
                 lastRound note' genesisID genesisHash voteKey selectionKey voteFirst voteLast
                 voteKeyDilution)) * fee)
        else 0)"
proof -
  obtain a ea where a: "DecodeAddress e account = (a, ea)"
    by (cases "DecodeAddress e account")
  obtain g eg where g: "byte32FromBase64 e genesisHash = (g, eg)"
    by (cases "byte32FromBase64 e genesisHash")
  obtain v ev where v: "byte32FromBase64 e voteKey = (v, ev)"
    by (cases "byte32FromBase64 e voteKey")
  obtain k ek where k: "byte32FromBase64 e selectionKey = (k, ek)"
    by (cases "byte32FromBase64 e selectionKey")
  obtain s es where s: "estimateSize e (MakeKeyRegTxn_candidate e account fee firstRound
      lastRound note' genesisID genesisHash voteKey selectionKey voteFirst voteLast
      voteKeyDilution) = (s, es)"
    by (cases "estimateSize e (MakeKeyRegTxn_candidate e account fee firstRound
      lastRound note' genesisID genesisHash voteKey selectionKey voteFirst voteLast
      voteKeyDilution)")
  note s' = s [unfolded MakeKeyRegTxn_candidate_def a g v k fst_conv]
  show ?thesis
    unfolding s unfolding MakeKeyRegTxn_def a g v k
    by (cases ea; cases eg; cases ev; cases ek; cases es)
       (simp_all add: s' Let_def set_Fee_def)
qed

lemma MakeAssetCreateTxn_outcome:
  "(snd (MakeAssetCreateTxn e account fee firstRound lastRound note' genesisID genesisHash
           total' defaultFrozen manager reserve freeze clawback unitName assetName) = None)
     = ((manager = [] \<or> snd (DecodeAddress e manager) = None)
        \<and> (reserve = [] \<or> snd (DecodeAddress e reserve) = None)
        \<and> (freeze = [] \<or> snd (DecodeAddress e freeze) = None)
        \<and> (clawback = [] \<or> snd (DecodeAddress e clawback) = None)
        \<and> length unitName \<le> UnitName_len e \<and> length assetName \<le> AssetName_len e
        \<and> snd (DecodeAddress e account) = None \<and> snd (byte32FromBase64 e genesisHash) = None
        \<and> snd (estimateSize e (MakeAssetCreateTxn_candidate e account fee firstRound lastRound
             note' genesisID genesisHash total' defaultFrozen manager reserve freeze clawback
             unitName assetName)) = None)
   \<and> Fee (Header (fst (MakeAssetCreateTxn e account fee firstRound lastRound note' genesisID
           genesisHash total' defaultFrozen manager reserve freeze clawback unitName
           assetName)))
     = (if snd (MakeAssetCreateTxn e account fee firstRound lastRound note' genesisID
           genesisHash total' defaultFrozen manager reserve freeze clawback unitName
           assetName) = None
        then fst (estimateSize e (MakeAssetCreateTxn_candidate e account fee firstRound
           lastRound note' genesisID genesisHash total' defaultFrozen manager reserve freeze
           clawback unitName assetName)) * fee
        else 0)"
proof -
  obtain m em where m:
    "(if manager \<noteq> [] then DecodeAddress e manager else (Address_zero, None)) = (m, em)"
    by (cases "if manager \<noteq> [] then DecodeAddress e manager else (Address_zero, None)")
  obtain r er where r:
    "(if reserve \<noteq> [] then DecodeAddress e reserve else (Address_zero, None)) = (r, er)"
    by (cases "if reserve \<noteq> [] then DecodeAddress e reserve else (Address_zero, None)")
  obtain f ef where f:
    "(if freeze \<noteq> [] then DecodeAddress e freeze else (Address_zero, None)) = (f, ef)"
    by (cases "if freeze \<noteq> [] then DecodeAddress e freeze else (Address_zero, None)")
  obtain c ec where c:
    "(if clawback \<noteq> [] then DecodeAddress e clawback else (Address_zero, None)) = (c, ec)"
    by (cases "if clawback \<noteq> [] then DecodeAddress e clawback else (Address_zero, None)")
  obtain a ea where a: "DecodeAddress e account = (a, ea)"
    by (cases "DecodeAddress e account")
  obtain g eg where g: "byte32FromBase64 e genesisHash = (g, eg)"
    by (cases "byte32FromBase64 e genesisHash")
  have m1: "(if manager \<noteq> [] then fst (DecodeAddress e manager) else Address_zero) = m"
    and m2: "(manager = [] \<or> snd (DecodeAddress e manager) = None) = (em = None)"
    using m by (auto split: if_splits)
  have r1: "(if reserve \<noteq> [] then fst (DecodeAddress e reserve) else Address_zero) = r"
    and r2: "(reserve = [] \<or> snd (DecodeAddress e reserve) = None) = (er = None)"
    using r by (auto split: if_splits)
  have f1: "(if freeze \<noteq> [] then fst (DecodeAddress e freeze) else Address_zero) = f"
    and f2: "(freeze = [] \<or> snd (DecodeAddress e freeze) = None) = (ef = None)"
    using f by (auto split: if_splits)
  have c1: "(if clawback \<noteq> [] then fst (DecodeAddress e clawback) else Address_zero) = c"
    and c2: "(clawback = [] \<or> snd (DecodeAddress e clawback) = None) = (ec = None)"
    using c by (auto split: if_splits)
  obtain s es where s: "estimateSize e (MakeAssetCreateTxn_candidate e account fee firstRound
      lastRound note' genesisID genesisHash total' defaultFrozen manager reserve freeze
      clawback unitName assetName) = (s, es)"
    by (cases "estimateSize e (MakeAssetCreateTxn_candidate e account fee firstRound
      lastRound note' genesisID genesisHash total' defaultFrozen manager reserve freeze
      clawback unitName assetName)")
  note s' = s [unfolded MakeAssetCreateTxn_candidate_def a g m1 r1 f1 c1 fst_conv]
  show ?thesis
    unfolding s m2 r2 f2 c2 unfolding MakeAssetCreateTxn_def Let_def
    apply (simp add: m r f c a g length_copy zero_bytes_def [symmetric]
        cong: if_cong split del: if_split)
    apply (cases em; cases er; cases ef; cases ec; cases ea; cases eg; cases es)
    apply (simp_all add: length_copy split del: if_split)
    apply (auto simp: s' [unfolded zero_bytes_def Transaction_zero_def AssetParams_zero_def
            Header_zero_def, simplified]
          set_Fee_def set_AssetParams_def get_AssetParams_def Header_zero_def
          Transaction_zero_def AssetParams_zero_def zero_bytes_def
          split: prod.splits option.splits)
    done
qed

lemma word_mult_mono_no_overflow:
  fixes s1 s2 f1 f2 :: uint64
  assumes "s1 \<le> s2" and "f1 \<le> f2" and "unat s2 * unat f2 < 2 ^ 64"
  shows "s1 * f1 \<le> s2 * f2"
proof -
  have le: "unat s1 * unat f1 \<le> unat s2 * unat f2"
    using assms(1,2) by (simp add: word_le_nat_alt mult_le_mono)
  then have "unat s1 * unat f1 < 2 ^ 64"
    using assms(3) by (rule le_less_trans)
  then have 1: "unat (s1 * f1) = unat s1 * unat f1"
    by (simp add: unat_mult_lem [THEN iffD1])
  have 2: "unat (s2 * f2) = unat s2 * unat f2"
    using assms(3) by (simp add: unat_mult_lem [THEN iffD1])
  show ?thesis
    using le by (simp add: word_le_nat_alt 1 2)
qed

lemma wrap_decreases:
  fixes s :: uint64
  assumes "128 < s" and "s < 256"
  shows "s * 18374686479671623680 < s * 72057594037927936
    \<and> MinTxnFee \<le> s * 18374686479671623680"
proof -
  define n where "n = unat s"
  have n: "128 < n" "n < 256"
    using assms by (simp_all add: n_def word_less_nat_alt)
  have e: "n * 18374686479671623680
      = (256 - n) * 72057594037927936 + (n - 1) * 18446744073709551616"
    using n by (simp add: algebra_simps diff_mult_distrib)
  have "unat (s * 18374686479671623680) = (n * 18374686479671623680) mod 18446744073709551616"
    by (simp add: unat_word_ariths n_def)
  also have "\<dots> = ((256 - n) * 72057594037927936) mod 18446744073709551616"
    unfolding e by simp
  also have "\<dots> = (256 - n) * 72057594037927936"
    using n by simp
  finally have 2: "unat (s * 18374686479671623680) = (256 - n) * 72057594037927936" .
  have "unat (s * 72057594037927936) = (n * 72057594037927936) mod 18446744073709551616"
    by (simp add: unat_word_ariths n_def)
  also have "\<dots> = n * 72057594037927936"
    using n by simp
  finally have 1: "unat (s * 72057594037927936) = n * 72057594037927936" .
  show ?thesis
    using n by (simp add: word_less_nat_alt word_le_nat_alt 1 2 MinTxnFee_def) arith
qed

lemma clamp_mono:
  fixes x y :: uint64
  shows "x \<le> y \<Longrightarrow>
    (if x < MinTxnFee then MinTxnFee else x) \<le> (if y < MinTxnFee then MinTxnFee else y)"
  by auto

lemma flat_fee_clamp:
  "(if Fee (Header (set_Fee tx fee)) < MinTxnFee then set_Fee (set_Fee tx fee) MinTxnFee
    else set_Fee tx fee) = tx\<lparr>Header := (Header tx)\<lparr>Fee := max fee 1000\<rparr>\<rparr>"
  by (auto simp: set_Fee_def MinTxnFee_def max_def)

lemma flat_fee_step:
  fixes r :: "Transaction \<times> error option"
  shows "snd (case r of (tx, Some err) \<Rightarrow> (Transaction_zero e, Some err)
           | (tx, None) \<Rightarrow>
               let tx1 = set_Fee tx fee;
                   tx2 = (if Fee (Header tx1) < MinTxnFee then set_Fee tx1 MinTxnFee else tx1)
               in (tx2, None)) = snd r
      \<and> (snd r = None \<longrightarrow>
          fst (case r of (tx, Some err) \<Rightarrow> (Transaction_zero e, Some err)
           | (tx, None) \<Rightarrow>
               let tx1 = set_Fee tx fee;
                   tx2 = (if Fee (Header tx1) < MinTxnFee then set_Fee tx1 MinTxnFee else tx1)
               in (tx2, None)) = (fst r)\<lparr>Header := (Header (fst r))\<lparr>Fee := max fee 1000\<rparr>\<rparr>)"
  by (simp add: Let_def flat_fee_clamp split: prod.splits option.splits)

lemma MakePaymentTxn_floor:
  "MakePaymentTxn e from' to' fee amount firstRound lastRound note' closeRemainderTo genesisID
     genesisHash = (tx, None) \<Longrightarrow> MinTxnFee \<le> Fee (Header tx)"
  by (auto simp: MakePaymentTxn_def Let_def set_Fee_def split: prod.splits option.splits if_splits)

lemma MakeKeyRegTxn_floor:
  "MakeKeyRegTxn e account fee firstRound lastRound note' genesisID genesisHash voteKey
     selectionKey voteFirst voteLast voteKeyDilution = (tx, None)
   \<Longrightarrow> MinTxnFee \<le> Fee (Header tx)"
  by (auto simp: MakeKeyRegTxn_def Let_def set_Fee_def split: prod.splits option.splits if_splits)

lemma flat_fee_floor:
  fixes r :: "Transaction \<times> error option"
  shows "(case r of (tx, Some err) \<Rightarrow> (Transaction_zero e, Some err)
           | (tx, None) \<Rightarrow>
               let tx1 = set_Fee tx fee;
                   tx2 = (if Fee (Header tx1) < MinTxnFee then set_Fee tx1 MinTxnFee else tx1)
               in (tx2, None)) = (tx', None) \<Longrightarrow> MinTxnFee \<le> Fee (Header tx')"
  by (auto simp: Let_def set_Fee_def split: prod.splits option.splits if_splits)

section \<open>The fee floor\<close>

text \<open>
  The floor holds for the five constructors that compare the fee with \<open>MinTxnFee\<close>
  before they return.
\<close>

lemma fee_floor_where_clamped:
  "(MakePaymentTxn e from' to' fee amount firstRound lastRound note' closeRemainderTo
      genesisID genesisHash = (tx, None) \<longrightarrow> 1000 \<le> Fee (Header tx))
   \<and> (MakePaymentTxnWithFlatFee e from' to' fee amount firstRound lastRound note'
      closeRemainderTo genesisID genesisHash = (tx, None) \<longrightarrow> 1000 \<le> Fee (Header tx))
   \<and> (MakeKeyRegTxn e account fee firstRound lastRound note' genesisID gh voteKey
      selectionKey voteFirst voteLast voteKeyDilution = (tx, None) \<longrightarrow> 1000 \<le> Fee (Header tx))
   \<and> (MakeKeyRegTxnWithFlatFee e account fee firstRound lastRound note' genesisID gh voteKey
      selectionKey voteFirst voteLast voteKeyDilution = (tx, None) \<longrightarrow> 1000 \<le> Fee (Header tx))
   \<and> (MakeAssetCreateTxnWithFlatFee e account fee firstRound lastRound note' genesisID gh
      total' defaultFrozen manager reserve freeze clawback unitName assetName = (tx, None)
      \<longrightarrow> 1000 \<le> Fee (Header tx))"
  unfolding MakePaymentTxnWithFlatFee_def MakeKeyRegTxnWithFlatFee_def
    MakeAssetCreateTxnWithFlatFee_def
proof (intro conjI impI)
  assume "MakePaymentTxn e from' to' fee amount firstRound lastRound note' closeRemainderTo
      genesisID genesisHash = (tx, None)"
  then show "1000 \<le> Fee (Header tx)"
    using MakePaymentTxn_floor by (simp add: MinTxnFee_def)
next
  assume "MakeKeyRegTxn e account fee firstRound lastRound note' genesisID gh voteKey
      selectionKey voteFirst voteLast voteKeyDilution = (tx, None)"
  then show "1000 \<le> Fee (Header tx)"
    using MakeKeyRegTxn_floor by (simp add: MinTxnFee_def)
qed (drule flat_fee_floor, simp add: MinTxnFee_def)+

text \<open>
  C1. The claim asks for a fee of at least 1000 on every transaction a constructor
  returns. \<open>MakeAssetCreateTxn\<close> returns the product of the estimated size and the rate
  as it is: with a signed size of 200 bytes and a rate of 1 the call succeeds with a fee
  of 200.
\<close>

theorem MakeAssetCreateTxn_fee_below_floor:
  "snd (MakeAssetCreateTxn demo_env ''ALICE'' 1 1 2 [] ''t'' ''GH'' 5 False [] [] [] []
          ''u'' ''a'') = None
   \<and> Fee (Header (fst (MakeAssetCreateTxn demo_env ''ALICE'' 1 1 2 [] ''t'' ''GH'' 5 False
          [] [] [] [] ''u'' ''a''))) = 200
   \<and> (200 :: uint64) < MinTxnFee"
  by (simp add: MakeAssetCreateTxn_def demo_defs)

section \<open>Error returns\<close>

text \<open>
  C3. The claim asks for the zero transaction beside every error. \<open>MakeAssetCreateTxn\<close>
  with a manager address that does not decode returns the error beside the record as
  built so far, which has its type and its total set.
\<close>

theorem MakeAssetCreateTxn_partial_on_error:
  "snd (MakeAssetCreateTxn demo_env ''ALICE'' 1 1 2 [] ''t'' ''GH'' 5 False ''BAD'' [] [] []
          ''u'' ''a'') = Some (ExternalError ''bad address'')
   \<and> Type (fst (MakeAssetCreateTxn demo_env ''ALICE'' 1 1 2 [] ''t'' ''GH'' 5 False ''BAD''
          [] [] [] ''u'' ''a'')) = AssetConfigTx
   \<and> Total (get_AssetParams (fst (MakeAssetCreateTxn demo_env ''ALICE'' 1 1 2 [] ''t'' ''GH''
          5 False ''BAD'' [] [] [] ''u'' ''a''))) = 5
   \<and> fst (MakeAssetCreateTxn demo_env ''ALICE'' 1 1 2 [] ''t'' ''GH'' 5 False ''BAD'' [] [] []
          ''u'' ''a'') \<noteq> Transaction_zero demo_env"
  by (simp add: MakeAssetCreateTxn_def demo_defs)

text \<open>
  C4. The claim asks for an error whenever the genesis hash is not 32 bytes long.
  \<open>MakePaymentTxn\<close> rejects the empty slice only: a genesis hash of 5 bytes is accepted
  and the transaction carries these 5 bytes followed by 27 zero bytes.
\<close>

theorem MakePaymentTxn_short_genesisHash:
  "snd (MakePaymentTxn demo_env ''ALICE'' ''BOB'' 10 5000000 1000 2000 [] []
          ''testnet-v1.0'' [1, 2, 3, 4, 5]) = None
   \<and> GenesisHash (Header (fst (MakePaymentTxn demo_env ''ALICE'' ''BOB'' 10 5000000 1000 2000
          [] [] ''testnet-v1.0'' [1, 2, 3, 4, 5]))) = [1, 2, 3, 4, 5] @ replicate 27 0"
  by (simp add: MakePaymentTxn_def demo_defs)

section \<open>Fee monotonicity\<close>

text \<open>
  The product of size and rate wraps at \<open>2 ^ 64\<close>. Whenever a payment is estimated at
  the same size \<open>s\<close> with \<open>128 < s < 256\<close> for the rates \<open>2 ^ 56\<close> and
  \<open>2 ^ 64 - 2 ^ 56\<close>, the larger rate gives the smaller fee, whatever the signer is.
\<close>

lemma MakePaymentTxn_fee_wraps:
  assumes "estimateSize e (MakePaymentTxn_candidate e from' to' 72057594037927936 amount
        firstRound lastRound note' closeRemainderTo genesisID genesisHash) = (s, None)"
    and "estimateSize e (MakePaymentTxn_candidate e from' to' 18374686479671623680 amount
        firstRound lastRound note' closeRemainderTo genesisID genesisHash) = (s, None)"
    and "128 < s" and "s < 256"
    and "snd (MakePaymentTxn e from' to' 72057594037927936 amount firstRound lastRound note'
        closeRemainderTo genesisID genesisHash) = None"
  shows "Fee (Header (fst (MakePaymentTxn e from' to' 18374686479671623680 amount firstRound
        lastRound note' closeRemainderTo genesisID genesisHash)))
    < Fee (Header (fst (MakePaymentTxn e from' to' 72057594037927936 amount firstRound
        lastRound note' closeRemainderTo genesisID genesisHash)))"
proof -
  have w: "s * 18374686479671623680 < s * 72057594037927936"
    and m: "MinTxnFee \<le> s * 18374686479671623680"
    using wrap_decreases [OF assms(3,4)] by simp_all
  have ok: "snd (MakePaymentTxn e from' to' 18374686479671623680 amount firstRound lastRound
        note' closeRemainderTo genesisID genesisHash) = None"
    using assms(1,2,5) by (simp add: MakePaymentTxn_outcome)
  show ?thesis
    using w m by (auto simp: MakePaymentTxn_outcome [THEN conjunct2] ok assms(1,2,5))
qed

text \<open>
  C5, as stated, fails. With both rates estimated at the same size of 230 bytes, raising
  the rate from \<open>2 ^ 56\<close> to \<open>2 ^ 64 - 2 ^ 56\<close> takes the fee of a payment from
  \<open>230 * 2 ^ 56\<close> down to \<open>26 * 2 ^ 56\<close>; with a size of 200 bytes it takes it from
  \<open>200 * 2 ^ 56\<close> down to \<open>56 * 2 ^ 56\<close>.
\<close>

theorem fee_monotonicity_counterexample:
  "(72057594037927936 :: uint64) \<le> 18374686479671623680
   \<and> fst (estimateSize sized_env (MakePaymentTxn_candidate sized_env ''ALICE'' ''BOB''
          72057594037927936 5 1 2 [] [] ''t'' (replicate 32 3))) = 230
   \<and> fst (estimateSize sized_env (MakePaymentTxn_candidate sized_env ''ALICE'' ''BOB''
          18374686479671623680 5 1 2 [] [] ''t'' (replicate 32 3))) = 230
   \<and> Fee (Header (fst (MakePaymentTxn sized_env ''ALICE'' ''BOB'' 72057594037927936 5 1 2 []
          [] ''t'' (replicate 32 3)))) = 16573246628723425280
   \<and> Fee (Header (fst (MakePaymentTxn sized_env ''ALICE'' ''BOB'' 18374686479671623680 5 1 2 []
          [] ''t'' (replicate 32 3)))) = 1873497444986126336
   \<and> \<not> Fee (Header (fst (MakePaymentTxn sized_env ''ALICE'' ''BOB'' 72057594037927936 5 1 2 []
          [] ''t'' (replicate 32 3))))
       \<le> Fee (Header (fst (MakePaymentTxn sized_env ''ALICE'' ''BOB'' 18374686479671623680 5 1
          2 [] [] ''t'' (replicate 32 3))))
   \<and> Fee (Header (fst (MakePaymentTxn demo_env ''ALICE'' ''BOB'' 72057594037927936 5 1 2 []
          [] ''t'' (replicate 32 3)))) = 14411518807585587200
   \<and> Fee (Header (fst (MakePaymentTxn demo_env ''ALICE'' ''BOB'' 18374686479671623680 5 1 2 []
          [] ''t'' (replicate 32 3)))) = 4035225266123964416"
  by (simp add: MakePaymentTxn_def MakePaymentTxn_candidate_def sized_env_def demo_defs)

text \<open>
  C5, amended. Let \<open>r1 \<le> r2\<close> be two rates, and let the transaction a per-byte
  constructor assembles be estimated at size \<open>s1\<close> with rate \<open>r1\<close> and at size \<open>s2\<close>
  with rate \<open>r2\<close>. If \<open>s1 \<le> s2\<close> (in particular if the size is the same) and
  \<open>s2 * r2\<close> stays below \<open>2 ^ 64\<close>, the fee the constructor computes for \<open>r1\<close> is at most
  the fee it computes for \<open>r2\<close>. This holds for each of the three per-byte constructors.
\<close>

theorem fee_monotone_without_overflow:
  assumes le: "fee1 \<le> fee2"
  shows "(estimateSize e (MakePaymentTxn_candidate e from' to' fee1 amount firstRound lastRound
             note' closeRemainderTo genesisID genesisHash) = (s1, None)
          \<and> estimateSize e (MakePaymentTxn_candidate e from' to' fee2 amount firstRound
             lastRound note' closeRemainderTo genesisID genesisHash) = (s2, None)
          \<and> s1 \<le> s2 \<and> unat s2 * unat fee2 < 2 ^ 64
        \<longrightarrow> Fee (Header (fst (MakePaymentTxn e from' to' fee1 amount firstRound lastRound note'
             closeRemainderTo genesisID genesisHash)))
          \<le> Fee (Header (fst (MakePaymentTxn e from' to' fee2 amount firstRound lastRound note'
             closeRemainderTo genesisID genesisHash))))
     \<and> (estimateSize e (MakeKeyRegTxn_candidate e account fee1 firstRound lastRound note'
             genesisID gh voteKey selectionKey voteFirst voteLast voteKeyDilution) = (k1, None)
          \<and> estimateSize e (MakeKeyRegTxn_candidate e account fee2 firstRound lastRound note'
             genesisID gh voteKey selectionKey voteFirst voteLast voteKeyDilution) = (k2, None)
          \<and> k1 \<le> k2 \<and> unat k2 * unat fee2 < 2 ^ 64
        \<longrightarrow> Fee (Header (fst (MakeKeyRegTxn e account fee1 firstRound lastRound note' genesisID
             gh voteKey selectionKey voteFirst voteLast voteKeyDilution)))
          \<le> Fee (Header (fst (MakeKeyRegTxn e account fee2 firstRound lastRound note' genesisID
             gh voteKey selectionKey voteFirst voteLast voteKeyDilution))))
     \<and> (estimateSize e (MakeAssetCreateTxn_candidate e account fee1 firstRound lastRound note'
             genesisID gh total' defaultFrozen manager reserve freeze clawback unitName
             assetName) = (a1, None)
          \<and> estimateSize e (MakeAssetCreateTxn_candidate e account fee2 firstRound lastRound
             note' genesisID gh total' defaultFrozen manager reserve freeze clawback unitName
             assetName) = (a2, None)
          \<and> a1 \<le> a2 \<and> unat a2 * unat fee2 < 2 ^ 64
        \<longrightarrow> Fee (Header (fst (MakeAssetCreateTxn e account fee1 firstRound lastRound note'
             genesisID gh total' defaultFrozen manager reserve freeze clawback unitName
             assetName)))
          \<le> Fee (Header (fst (MakeAssetCreateTxn e account fee2 firstRound lastRound note'
             genesisID gh total' defaultFrozen manager reserve freeze clawback unitName
             assetName))))"
proof (intro conjI impI; elim conjE)
  assume h: "estimateSize e (MakePaymentTxn_candidate e from' to' fee1 amount firstRound
        lastRound note' closeRemainderTo genesisID genesisHash) = (s1, None)"
      "estimateSize e (MakePaymentTxn_candidate e from' to' fee2 amount firstRound
        lastRound note' closeRemainderTo genesisID genesisHash) = (s2, None)"
    and s: "s1 \<le> s2" and b: "unat s2 * unat fee2 < 2 ^ 64"
  have "s1 * fee1 \<le> s2 * fee2"
    using s le b by (rule word_mult_mono_no_overflow)
  then show "Fee (Header (fst (MakePaymentTxn e from' to' fee1 amount firstRound lastRound note'
             closeRemainderTo genesisID genesisHash)))
          \<le> Fee (Header (fst (MakePaymentTxn e from' to' fee2 amount firstRound lastRound note'
             closeRemainderTo genesisID genesisHash)))"
    using clamp_mono [of "s1 * fee1" "s2 * fee2"] by (auto simp: MakePaymentTxn_outcome h)
next
  assume h: "estimateSize e (MakeKeyRegTxn_candidate e account fee1 firstRound lastRound note'
        genesisID gh voteKey selectionKey voteFirst voteLast voteKeyDilution) = (k1, None)"
      "estimateSize e (MakeKeyRegTxn_candidate e account fee2 firstRound lastRound note'
        genesisID gh voteKey selectionKey voteFirst voteLast voteKeyDilution) = (k2, None)"
    and s: "k1 \<le> k2" and b: "unat k2 * unat fee2 < 2 ^ 64"
  have "k1 * fee1 \<le> k2 * fee2"
    using s le b by (rule word_mult_mono_no_overflow)
  then show "Fee (Header (fst (MakeKeyRegTxn e account fee1 firstRound lastRound note' genesisID
             gh voteKey selectionKey voteFirst voteLast voteKeyDilution)))
          \<le> Fee (Header (fst (MakeKeyRegTxn e account fee2 firstRound lastRound note' genesisID
             gh voteKey selectionKey voteFirst voteLast voteKeyDilution)))"
    using clamp_mono [of "k1 * fee1" "k2 * fee2"] by (auto simp: MakeKeyRegTxn_outcome h)
next
  assume h: "estimateSize e (MakeAssetCreateTxn_candidate e account fee1 firstRound lastRound
        note' genesisID gh total' defaultFrozen manager reserve freeze clawback unitName
        assetName) = (a1, None)"
      "estimateSize e (MakeAssetCreateTxn_candidate e account fee2 firstRound lastRound
        note' genesisID gh total' defaultFrozen manager reserve freeze clawback unitName
        assetName) = (a2, None)"
    and s: "a1 \<le> a2" and b: "unat a2 * unat fee2 < 2 ^ 64"
  have "a1 * fee1 \<le> a2 * fee2"
    using s le b by (rule word_mult_mono_no_overflow)
  then show "Fee (Header (fst (MakeAssetCreateTxn e account fee1 firstRound lastRound note'
             genesisID gh total' defaultFrozen manager reserve freeze clawback unitName
             assetName)))
          \<le> Fee (Header (fst (MakeAssetCreateTxn e account fee2 firstRound lastRound note'
             genesisID gh total' defaultFrozen manager reserve freeze clawback unitName
             assetName)))"
    by (auto simp: MakeAssetCreateTxn_outcome h)
qed

theorem fee_monotone_without_overflow_witness:
  "(3 :: uint64) \<le> 200
   \<and> estimateSize sized_env (MakePaymentTxn_candidate sized_env ''ALICE'' ''BOB'' 3 5 1 2 []
        [] ''t'' (replicate 32 3)) = (222, None)
   \<and> estimateSize sized_env (MakePaymentTxn_candidate sized_env ''ALICE'' ''BOB'' 200 5 1 2 []
        [] ''t'' (replicate 32 3)) = (224, None)
   \<and> (222 :: uint64) \<le> 224
   \<and> unat (224 :: uint64) * unat (200 :: uint64) < 2 ^ 64
   \<and> Fee (Header (fst (MakePaymentTxn sized_env ''ALICE'' ''BOB'' 3 5 1 2 [] [] ''t''
          (replicate 32 3))))
     \<le> Fee (Header (fst (MakePaymentTxn sized_env ''ALICE'' ''BOB'' 200 5 1 2 [] [] ''t''
          (replicate 32 3))))
   \<and> Fee (Header (fst (MakePaymentTxn sized_env ''ALICE'' ''BOB'' 3 5 1 2 [] [] ''t''
          (replicate 32 3)))) = 1000
   \<and> Fee (Header (fst (MakePaymentTxn sized_env ''ALICE'' ''BOB'' 200 5 1 2 [] [] ''t''
          (replicate 32 3)))) = 44800"
proof -
  have le: "(3 :: uint64) \<le> 200"
    by simp
  have s1: "estimateSize sized_env (MakePaymentTxn_candidate sized_env ''ALICE'' ''BOB'' 3 5 1
        2 [] [] ''t'' (replicate 32 3)) = (222, None)"
    by (simp add: MakePaymentTxn_candidate_def sized_env_def demo_defs)
  have s2: "estimateSize sized_env (MakePaymentTxn_candidate sized_env ''ALICE'' ''BOB'' 200 5
        1 2 [] [] ''t'' (replicate 32 3)) = (224, None)"
    by (simp add: MakePaymentTxn_candidate_def sized_env_def demo_defs)
  have s: "(222 :: uint64) \<le> 224"
    by simp
  have b: "unat (224 :: uint64) * unat (200 :: uint64) < 2 ^ 64"
    by simp
  have "Fee (Header (fst (MakePaymentTxn sized_env ''ALICE'' ''BOB'' 3 5 1 2 [] [] ''t''
          (replicate 32 3))))
     \<le> Fee (Header (fst (MakePaymentTxn sized_env ''ALICE'' ''BOB'' 200 5 1 2 [] [] ''t''
          (replicate 32 3))))"
    using fee_monotone_without_overflow [OF le, THEN conjunct1, rule_format,
        OF conjI [OF s1 conjI [OF s2 conjI [OF s b]]]] .
  moreover have "Fee (Header (fst (MakePaymentTxn sized_env ''ALICE'' ''BOB'' 3 5 1 2 [] []
      ''t'' (replicate 32 3)))) = 1000"
    by (simp add: MakePaymentTxn_def sized_env_def demo_defs)
  moreover have "Fee (Header (fst (MakePaymentTxn sized_env ''ALICE'' ''BOB'' 200 5 1 2 [] []
      ''t'' (replicate 32 3)))) = 44800"
    by (simp add: MakePaymentTxn_def sized_env_def demo_defs)
  ultimately show ?thesis
    using le s1 s2 s b by blast
qed

section \<open>Flat-fee variants\<close>

text \<open>
  C6. Each flat-fee variant calls its per-byte constructor with the same arguments; it
  returns an error exactly when that call does (the same error), and otherwise the
  transaction of that call with \<open>Fee\<close> replaced by the maximum of the flat fee and 1000.
\<close>

theorem flat_fee_variants:
  "snd (MakePaymentTxnWithFlatFee e from' to' fee amount firstRound lastRound note'
          closeRemainderTo genesisID genesisHash)
     = snd (MakePaymentTxn e from' to' fee amount firstRound lastRound note'
          closeRemainderTo genesisID genesisHash)
   \<and> (snd (MakePaymentTxn e from' to' fee amount firstRound lastRound note'
          closeRemainderTo genesisID genesisHash) = None \<longrightarrow>
        fst (MakePaymentTxnWithFlatFee e from' to' fee amount firstRound lastRound note'
          closeRemainderTo genesisID genesisHash)
        = (fst (MakePaymentTxn e from' to' fee amount firstRound lastRound note'
             closeRemainderTo genesisID genesisHash))
            \<lparr>Header := (Header (fst (MakePaymentTxn e from' to' fee amount firstRound lastRound
                 note' closeRemainderTo genesisID genesisHash)))\<lparr>Fee := max fee 1000\<rparr>\<rparr>)
   \<and> snd (MakeKeyRegTxnWithFlatFee e account fee firstRound lastRound note' genesisID gh
          voteKey selectionKey voteFirst voteLast voteKeyDilution)
     = snd (MakeKeyRegTxn e account fee firstRound lastRound note' genesisID gh
          voteKey selectionKey voteFirst voteLast voteKeyDilution)
   \<and> (snd (MakeKeyRegTxn e account fee firstRound lastRound note' genesisID gh
          voteKey selectionKey voteFirst voteLast voteKeyDilution) = None \<longrightarrow>
        fst (MakeKeyRegTxnWithFlatFee e account fee firstRound lastRound note' genesisID gh
          voteKey selectionKey voteFirst voteLast voteKeyDilution)
        = (fst (MakeKeyRegTxn e account fee firstRound lastRound note' genesisID gh
             voteKey selectionKey voteFirst voteLast voteKeyDilution))
            \<lparr>Header := (Header (fst (MakeKeyRegTxn e account fee firstRound lastRound note'
                 genesisID gh voteKey selectionKey voteFirst voteLast voteKeyDilution)))
               \<lparr>Fee := max fee 1000\<rparr>\<rparr>)
   \<and> snd (MakeAssetCreateTxnWithFlatFee e account fee firstRound lastRound note' genesisID gh
          total' defaultFrozen manager reserve freeze clawback unitName assetName)
     = snd (MakeAssetCreateTxn e account fee firstRound lastRound note' genesisID gh
          total' defaultFrozen manager reserve freeze clawback unitName assetName)
   \<and> (snd (MakeAssetCreateTxn e account fee firstRound lastRound note' genesisID gh
          total' defaultFrozen manager reserve freeze clawback unitName assetName) = None \<longrightarrow>
        fst (MakeAssetCreateTxnWithFlatFee e account fee firstRound lastRound note' genesisID gh
          total' defaultFrozen manager reserve freeze clawback unitName assetName)
        = (fst (MakeAssetCreateTxn e account fee firstRound lastRound note' genesisID gh
             total' defaultFrozen manager reserve freeze clawback unitName assetName))
            \<lparr>Header := (Header (fst (MakeAssetCreateTxn e account fee firstRound lastRound note'
                 genesisID gh total' defaultFrozen manager reserve freeze clawback unitName
                 assetName)))\<lparr>Fee := max fee 1000\<rparr>\<rparr>)"
  unfolding MakePaymentTxnWithFlatFee_def MakeKeyRegTxnWithFlatFee_def
    MakeAssetCreateTxnWithFlatFee_def
  using flat_fee_step by blast

theorem flat_fee_variants_witness:
  "snd (MakePaymentTxnWithFlatFee demo_env ''ALICE'' ''BOB'' 5 5000000 1000 2000 [] []
          ''testnet-v1.0'' (replicate 32 3)) = None
   \<and> Fee (Header (fst (MakePaymentTxnWithFlatFee demo_env ''ALICE'' ''BOB'' 5 5000000 1000
          2000 [] [] ''testnet-v1.0'' (replicate 32 3)))) = 1000
   \<and> Sender (Header (fst (MakePaymentTxnWithFlatFee demo_env ''ALICE'' ''BOB'' 5 5000000 1000
          2000 [] [] ''testnet-v1.0'' (replicate 32 3)))) = replicate 32 1
   \<and> snd (MakeAssetCreateTxnWithFlatFee demo_env ''ALICE'' 5000 1 2 [] ''t'' ''GH'' 5 False
          [] [] [] [] ''u'' ''a'') = None
   \<and> Fee (Header (fst (MakeAssetCreateTxnWithFlatFee demo_env ''ALICE'' 5000 1 2 [] ''t''
          ''GH'' 5 False [] [] [] [] ''u'' ''a''))) = 5000
   \<and> snd (MakeKeyRegTxnWithFlatFee demo_env ''ALICE'' 7 1 2 [] ''t'' ''GH'' ''GH'' ''SHORT''
          1 2 3) = Some InputNot32Bytes"
proof -
  have p: "MakePaymentTxn demo_env ''ALICE'' ''BOB'' 5 5000000 1000 2000 [] []
          ''testnet-v1.0'' (replicate 32 3) =
       ((Transaction_zero demo_env)\<lparr>Type := PaymentTx,
          Header := (Header_zero\<lparr>Sender := replicate 32 1, Fee := 1000, FirstValid := 1000,
            LastValid := 2000, GenesisID := ''testnet-v1.0'', GenesisHash := replicate 32 3\<rparr>),
          PaymentTxnFields := \<lparr>Receiver = replicate 32 2, Amount = 5000000,
            CloseRemainderTo = replicate 32 0\<rparr>\<rparr>, None)"
    by (simp add: MakePaymentTxn_def demo_defs)
  have a: "snd (MakeAssetCreateTxn demo_env ''ALICE'' 5000 1 2 [] ''t'' ''GH'' 5 False
          [] [] [] [] ''u'' ''a'') = None"
    by (simp add: MakeAssetCreateTxn_def demo_defs)
  have k: "snd (MakeKeyRegTxn demo_env ''ALICE'' 7 1 2 [] ''t'' ''GH'' ''GH'' ''SHORT''
          1 2 3) = Some InputNot32Bytes"
    by (simp add: MakeKeyRegTxn_def demo_defs)
  show ?thesis
    using flat_fee_variants [where e = demo_env and from' = "''ALICE''" and to' = "''BOB''"
        and fee = 5 and amount = 5000000 and firstRound = 1000 and lastRound = 2000
        and note' = "[]" and closeRemainderTo = "[]" and genesisID = "''testnet-v1.0''"
        and genesisHash = "replicate 32 3"]
      flat_fee_variants [where e = demo_env and account = "''ALICE''" and fee = 7
        and firstRound = 1 and lastRound = 2 and note' = "[]" and genesisID = "''t''"
        and gh = "''GH''" and voteKey = "''GH''" and selectionKey = "''SHORT''"
        and voteFirst = 1 and voteLast = 2 and voteKeyDilution = 3]
      flat_fee_variants [where e = demo_env and account = "''ALICE''" and fee = 5000
        and firstRound = 1 and lastRound = 2 and note' = "[]" and genesisID = "''t''"
        and gh = "''GH''" and total' = 5 and defaultFrozen = False and manager = "[]"
        and reserve = "[]" and freeze = "[]" and clawback = "[]" and unitName = "''u''"
        and assetName = "''a''"]
    by (simp add: p a k Header_zero_def)
qed

section \<open>Optional addresses\<close>

lemma MakePaymentTxn_empty_close_independent:
  "from' \<noteq> [] \<Longrightarrow> to' \<noteq> [] \<Longrightarrow>
   MakePaymentTxn (e\<lparr>DecodeAddress := (DecodeAddress e)([] := r)\<rparr>) from' to' fee amount
       firstRound lastRound note' [] genesisID genesisHash
   = MakePaymentTxn e from' to' fee amount firstRound lastRound note' [] genesisID genesisHash"
  by (simp add: MakePaymentTxn_def cong: prod.case_cong option.case_cong if_cong)

lemma MakePaymentTxn_empty_close_zero:
  "MakePaymentTxn e from' to' fee amount firstRound lastRound note' [] genesisID genesisHash
     = (tx, None)
   \<Longrightarrow> CloseRemainderTo (PaymentTxnFields tx) = Address_zero"
  by (auto simp: MakePaymentTxn_def Let_def set_Fee_def split: prod.splits option.splits if_splits)

lemma MakeAssetCreateTxn_empty_independent:
  "account \<noteq> [] \<Longrightarrow>
   MakeAssetCreateTxn (e\<lparr>DecodeAddress := (DecodeAddress e)([] := r)\<rparr>) account feePerByte
       firstRound lastRound note' genesisID genesisHash total' defaultFrozen manager reserve
       freeze clawback unitName assetName
   = MakeAssetCreateTxn e account feePerByte firstRound lastRound note' genesisID genesisHash
       total' defaultFrozen manager reserve freeze clawback unitName assetName"
  by (simp add: MakeAssetCreateTxn_def cong: prod.case_cong option.case_cong if_cong)

lemma MakeAssetCreateTxn_optional_fields:
  assumes "MakeAssetCreateTxn e account feePerByte firstRound lastRound note' genesisID
       genesisHash total' defaultFrozen manager reserve freeze clawback unitName assetName
       = (tx, None)"
  shows "Manager (get_AssetParams tx)
       = (if manager \<noteq> [] then fst (DecodeAddress e manager) else Address_zero)
    \<and> Reserve (get_AssetParams tx)
       = (if reserve \<noteq> [] then fst (DecodeAddress e reserve) else Address_zero)
    \<and> Freeze (get_AssetParams tx)
       = (if freeze \<noteq> [] then fst (DecodeAddress e freeze) else Address_zero)
    \<and> Clawback (get_AssetParams tx)
       = (if clawback \<noteq> [] then fst (DecodeAddress e clawback) else Address_zero)"
  using assms
  by (auto simp: MakeAssetCreateTxn_def Let_def split: prod.splits option.splits if_splits)

text \<open>
  C7. \<open>MakePaymentTxn\<close> with an empty \<open>closeRemainderTo\<close> returns without error exactly
  when both mandatory addresses decode, the genesis hash is not empty and the size
  estimate of the assembled transaction succeeds: the empty string is no cause of failure.
  Likewise \<open>MakeAssetCreateTxn\<close> returns without error exactly when every non-empty
  optional address decodes, the names fit, the account and the genesis hash decode and the
  size estimate succeeds. In the transaction returned without error \<open>CloseRemainderTo\<close>,
  and each of \<open>Manager\<close>, \<open>Reserve\<close>, \<open>Freeze\<close>, \<open>Clawback\<close> whose string is empty, is
  the all-zero address. When the mandatory addresses are not empty, the outcome does not
  depend on what the address decoder does with the empty string, which it is never asked
  to decode.
\<close>

theorem empty_optional_addresses:
  "(from' \<noteq> [] \<and> to' \<noteq> [] \<longrightarrow>
       MakePaymentTxn (e\<lparr>DecodeAddress := (DecodeAddress e)([] := r)\<rparr>) from' to' fee
           amount firstRound lastRound note' [] genesisID genesisHash
         = MakePaymentTxn e from' to' fee amount firstRound lastRound note' [] genesisID
           genesisHash)
     \<and> (\<forall>tx. MakePaymentTxn e from' to' fee amount firstRound lastRound note' [] genesisID
           genesisHash = (tx, None)
         \<longrightarrow> CloseRemainderTo (PaymentTxnFields tx) = Address_zero)
     \<and> (account \<noteq> [] \<longrightarrow>
       MakeAssetCreateTxn (e\<lparr>DecodeAddress := (DecodeAddress e)([] := r)\<rparr>) account fee
           firstRound lastRound note' genesisID gh total' defaultFrozen manager reserve
           freeze clawback unitName assetName
         = MakeAssetCreateTxn e account fee firstRound lastRound note' genesisID gh total'
           defaultFrozen manager reserve freeze clawback unitName assetName)
     \<and> (\<forall>tx. MakeAssetCreateTxn e account fee firstRound lastRound note' genesisID gh total'
           defaultFrozen manager reserve freeze clawback unitName assetName = (tx, None)
         \<longrightarrow> (manager = [] \<longrightarrow> Manager (get_AssetParams tx) = Address_zero)
           \<and> (reserve = [] \<longrightarrow> Reserve (get_AssetParams tx) = Address_zero)
           \<and> (freeze = [] \<longrightarrow> Freeze (get_AssetParams tx) = Address_zero)
           \<and> (clawback = [] \<longrightarrow> Clawback (get_AssetParams tx) = Address_zero))
     \<and> (snd (MakePaymentTxn e from' to' fee amount firstRound lastRound note' [] genesisID
           genesisHash) = None)
       = (snd (DecodeAddress e from') = None \<and> snd (DecodeAddress e to') = None
          \<and> genesisHash \<noteq> []
          \<and> snd (estimateSize e (MakePaymentTxn_candidate e from' to' fee amount firstRound
               lastRound note' [] genesisID genesisHash)) = None)
     \<and> (snd (MakeAssetCreateTxn e account fee firstRound lastRound note' genesisID gh total'
           defaultFrozen manager reserve freeze clawback unitName assetName) = None)
       = ((manager = [] \<or> snd (DecodeAddress e manager) = None)
          \<and> (reserve = [] \<or> snd (DecodeAddress e reserve) = None)
          \<and> (freeze = [] \<or> snd (DecodeAddress e freeze) = None)
          \<and> (clawback = [] \<or> snd (DecodeAddress e clawback) = None)
          \<and> length unitName \<le> UnitName_len e \<and> length assetName \<le> AssetName_len e
          \<and> snd (DecodeAddress e account) = None \<and> snd (byte32FromBase64 e gh) = None
          \<and> snd (estimateSize e (MakeAssetCreateTxn_candidate e account fee firstRound
               lastRound note' genesisID gh total' defaultFrozen manager reserve freeze
               clawback unitName assetName)) = None)"
proof -
  have 1: "from' \<noteq> [] \<and> to' \<noteq> [] \<longrightarrow>
       MakePaymentTxn (e\<lparr>DecodeAddress := (DecodeAddress e)([] := r)\<rparr>) from' to' fee
           amount firstRound lastRound note' [] genesisID genesisHash
         = MakePaymentTxn e from' to' fee amount firstRound lastRound note' [] genesisID
           genesisHash"
    by (simp add: MakePaymentTxn_empty_close_independent)
  have 2: "\<forall>tx. MakePaymentTxn e from' to' fee amount firstRound lastRound note' [] genesisID
           genesisHash = (tx, None)
         \<longrightarrow> CloseRemainderTo (PaymentTxnFields tx) = Address_zero"
    using MakePaymentTxn_empty_close_zero by blast
  have 3: "account \<noteq> [] \<longrightarrow>
       MakeAssetCreateTxn (e\<lparr>DecodeAddress := (DecodeAddress e)([] := r)\<rparr>) account fee
           firstRound lastRound note' genesisID gh total' defaultFrozen manager reserve
           freeze clawback unitName assetName
         = MakeAssetCreateTxn e account fee firstRound lastRound note' genesisID gh total'
           defaultFrozen manager reserve freeze clawback unitName assetName"
    by (simp add: MakeAssetCreateTxn_empty_independent)
  have 4: "\<forall>tx. MakeAssetCreateTxn e account fee firstRound lastRound note' genesisID gh total'
           defaultFrozen manager reserve freeze clawback unitName assetName = (tx, None)
         \<longrightarrow> (manager = [] \<longrightarrow> Manager (get_AssetParams tx) = Address_zero)
           \<and> (reserve = [] \<longrightarrow> Reserve (get_AssetParams tx) = Address_zero)
           \<and> (freeze = [] \<longrightarrow> Freeze (get_AssetParams tx) = Address_zero)
           \<and> (clawback = [] \<longrightarrow> Clawback (get_AssetParams tx) = Address_zero)"
  proof (intro allI impI)
    fix tx
    assume "MakeAssetCreateTxn e account fee firstRound lastRound note' genesisID gh total'
           defaultFrozen manager reserve freeze clawback unitName assetName = (tx, None)"
    from MakeAssetCreateTxn_optional_fields [OF this]
    show "(manager = [] \<longrightarrow> Manager (get_AssetParams tx) = Address_zero)
           \<and> (reserve = [] \<longrightarrow> Reserve (get_AssetParams tx) = Address_zero)
           \<and> (freeze = [] \<longrightarrow> Freeze (get_AssetParams tx) = Address_zero)
           \<and> (clawback = [] \<longrightarrow> Clawback (get_AssetParams tx) = Address_zero)"
      by simp
  qed
  have 5: "(snd (MakePaymentTxn e from' to' fee amount firstRound lastRound note' [] genesisID
           genesisHash) = None)
       = (snd (DecodeAddress e from') = None \<and> snd (DecodeAddress e to') = None
          \<and> genesisHash \<noteq> []
          \<and> snd (estimateSize e (MakePaymentTxn_candidate e from' to' fee amount firstRound
               lastRound note' [] genesisID genesisHash)) = None)"
    using MakePaymentTxn_outcome [of e from' to' fee amount firstRound lastRound note' "[]"
        genesisID genesisHash, THEN conjunct1] by simp
  have 6: "(snd (MakeAssetCreateTxn e account fee firstRound lastRound note' genesisID gh total'
           defaultFrozen manager reserve freeze clawback unitName assetName) = None)
       = ((manager = [] \<or> snd (DecodeAddress e manager) = None)
          \<and> (reserve = [] \<or> snd (DecodeAddress e reserve) = None)
          \<and> (freeze = [] \<or> snd (DecodeAddress e freeze) = None)
          \<and> (clawback = [] \<or> snd (DecodeAddress e clawback) = None)
          \<and> length unitName \<le> UnitName_len e \<and> length assetName \<le> AssetName_len e
          \<and> snd (DecodeAddress e account) = None \<and> snd (byte32FromBase64 e gh) = None
          \<and> snd (estimateSize e (MakeAssetCreateTxn_candidate e account fee firstRound
               lastRound note' genesisID gh total' defaultFrozen manager reserve freeze
               clawback unitName assetName)) = None)"
    by (rule MakeAssetCreateTxn_outcome [THEN conjunct1])
  show ?thesis
    using 1 2 3 4 5 6 by (intro conjI)
qed

theorem empty_optional_addresses_witness:
  "snd (DecodeAddress demo_env []) \<noteq> None
   \<and> MakePaymentTxn
         (demo_env\<lparr>DecodeAddress := (DecodeAddress demo_env)([] := (replicate 32 9, None))\<rparr>)
         ''ALICE'' ''BOB'' 10 5000000 1000 2000 [] [] ''testnet-v1.0'' (replicate 32 3)
       = MakePaymentTxn demo_env ''ALICE'' ''BOB'' 10 5000000 1000 2000 [] []
         ''testnet-v1.0'' (replicate 32 3)
   \<and> snd (DecodeAddress demo_env ''ALICE'') = None
   \<and> snd (DecodeAddress demo_env ''BOB'') = None
   \<and> snd (byte32FromBase64 demo_env ''GH'') = None
   \<and> snd (MakePaymentTxn demo_env ''ALICE'' ''BOB'' 10 5000000 1000 2000 [] []
          ''testnet-v1.0'' (replicate 32 3)) = None
   \<and> CloseRemainderTo (PaymentTxnFields (fst (MakePaymentTxn demo_env ''ALICE'' ''BOB'' 10
          5000000 1000 2000 [] [] ''testnet-v1.0'' (replicate 32 3)))) = Address_zero
   \<and> snd (MakeAssetCreateTxn demo_env ''ALICE'' 10 1 2 [] ''t'' ''GH'' 5 False [] ''BOB'' [] []
          ''u'' ''a'') = None
   \<and> Manager (get_AssetParams (fst (MakeAssetCreateTxn demo_env ''ALICE'' 10 1 2 [] ''t''
          ''GH'' 5 False [] ''BOB'' [] [] ''u'' ''a''))) = Address_zero
   \<and> Reserve (get_AssetParams (fst (MakeAssetCreateTxn demo_env ''ALICE'' 10 1 2 [] ''t''
          ''GH'' 5 False [] ''BOB'' [] [] ''u'' ''a''))) = replicate 32 2
   \<and> Clawback (get_AssetParams (fst (MakeAssetCreateTxn demo_env ''ALICE'' 10 1 2 [] ''t''
          ''GH'' 5 False [] ''BOB'' [] [] ''u'' ''a''))) = Address_zero"
proof -
  have d: "snd (DecodeAddress demo_env []) \<noteq> None"
      "snd (DecodeAddress demo_env ''ALICE'') = None"
      "snd (DecodeAddress demo_env ''BOB'') = None"
    by (simp_all add: demo_env_def)
  have g: "snd (byte32FromBase64 demo_env ''GH'') = None"
    by (simp add: demo_defs)
  have z: "\<And>tx. snd (estimateSize demo_env tx) = None"
    by (simp add: estimateSize_def demo_env_def)
  have l: "UnitName_len demo_env = 8" "AssetName_len demo_env = 32"
    by (simp_all add: demo_env_def)
  have r: "Reserve (get_AssetParams (fst (MakeAssetCreateTxn demo_env ''ALICE'' 10 1 2 [] ''t''
          ''GH'' 5 False [] ''BOB'' [] [] ''u'' ''a''))) = replicate 32 2"
    by (simp add: MakeAssetCreateTxn_def demo_defs)
  note t = empty_optional_addresses [where e = demo_env and from' = "''ALICE''"
      and to' = "''BOB''" and fee = 10 and amount = 5000000 and firstRound = 1000
      and lastRound = 2000 and note' = "[]" and genesisID = "''testnet-v1.0''"
      and genesisHash = "replicate 32 3" and r = "(replicate 32 9, None)"]
  note u = empty_optional_addresses [where e = demo_env and account = "''ALICE''"
      and fee = 10 and firstRound = 1 and lastRound = 2 and note' = "[]" and genesisID = "''t''"
      and gh = "''GH''" and total' = 5 and defaultFrozen = False and manager = "[]"
      and reserve = "''BOB''" and freeze = "[]" and clawback = "[]" and unitName = "''u''"
      and assetName = "''a''"]
  have i: "MakePaymentTxn
         (demo_env\<lparr>DecodeAddress := (DecodeAddress demo_env)([] := (replicate 32 9, None))\<rparr>)
         ''ALICE'' ''BOB'' 10 5000000 1000 2000 [] [] ''testnet-v1.0'' (replicate 32 3)
       = MakePaymentTxn demo_env ''ALICE'' ''BOB'' 10 5000000 1000 2000 [] []
         ''testnet-v1.0'' (replicate 32 3)"
    using t by simp
  have p: "snd (MakePaymentTxn demo_env ''ALICE'' ''BOB'' 10 5000000 1000 2000 [] []
          ''testnet-v1.0'' (replicate 32 3)) = None"
    using t d z by simp
  have a: "snd (MakeAssetCreateTxn demo_env ''ALICE'' 10 1 2 [] ''t'' ''GH'' 5 False [] ''BOB''
          [] [] ''u'' ''a'') = None"
    using u d g z l by simp
  have "CloseRemainderTo (PaymentTxnFields (fst (MakePaymentTxn demo_env ''ALICE'' ''BOB'' 10
          5000000 1000 2000 [] [] ''testnet-v1.0'' (replicate 32 3)))) = Address_zero"
    using t p by (metis prod.collapse)
  moreover have "Manager (get_AssetParams (fst (MakeAssetCreateTxn demo_env ''ALICE'' 10 1 2 []
          ''t'' ''GH'' 5 False [] ''BOB'' [] [] ''u'' ''a''))) = Address_zero
      \<and> Clawback (get_AssetParams (fst (MakeAssetCreateTxn demo_env ''ALICE'' 10 1 2 []
          ''t'' ''GH'' 5 False [] ''BOB'' [] [] ''u'' ''a''))) = Address_zero"
    using u a by (metis prod.collapse)
  ultimately show ?thesis
    using d g i p a r by simp
qed

section \<open>Properties of the transaction builder\<close>

lemma assign_nil: "assign None f h = Inl NilPointerDereference"
  by (simp add: assign_def)

lemma assign_Some: "assign (Some a) f h = Inr (h(a := f (h a)))"
  by (simp add: assign_def)

lemma buildT_body_Some:
  "buildT_body (Some a) tb h =
     Inr (Some a, h(a := (h a)\<lparr>Type := tb_Type tb,
       KeyregTxnFields := tb_KeyregTxnFields tb,
       PaymentTxnFields := tb_PaymentTxnFields tb,
       AssetConfigTxnFields := tb_AssetConfigTxnFields tb,
       AssetTransferTxnFields := tb_AssetTransferTxnFields tb,
       AssetFreezeTxnFields := tb_AssetFreezeTxnFields tb,
       ApplicationCallTxnFields := tb_ApplicationCallTxnFields tb\<rparr>))"
  by (simp add: buildT_body_def assign_Some then_do_def)

text \<open>
  C10. \<open>buildT\<close> panics on its first assignment for every builder and every heap, since
  its named result is nil; and the assignments of its body, run on an allocated
  transaction instead, do not change that transaction's \<open>Header\<close>, whatever the
  builder's \<open>Header\<close> is.
\<close>

theorem buildT_nil_dereference:
  "buildT tb h = Inl NilPointerDereference
   \<and> (\<exists>h'. buildT_body (Some a) tb h = Inr (Some a, h') \<and> Header (h' a) = Header (h a)
         \<and> Type (h' a) = tb_Type tb)"
  by (simp add: buildT_def buildT_body_def [of None] assign_nil then_do_def buildT_body_Some)

theorem buildT_nil_dereference_witness:
  "buildT demo_tb (\<lambda>a. Transaction_zero demo_env) = Inl NilPointerDereference
   \<and> Fee (tb_Header demo_tb) = 7
   \<and> (\<exists>h'. buildT_body (Some 0) demo_tb (\<lambda>a. Transaction_zero demo_env) = Inr (Some 0, h')
         \<and> Fee (Header (h' 0)) = 0 \<and> Type (h' 0) = PaymentTx)"
  using buildT_nil_dereference [of demo_tb "\<lambda>a. Transaction_zero demo_env" 0]
  by (auto simp: demo_tb_def Header_zero_def)

end
